theory Spec2Isabelle
  imports Complex_Main "HOL-Library.Multiset" "HOL-Library.Char_ord" "HOL-Library.List_Lexorder"
begin

section \<open>Data model\<close>

text \<open>
  The evaluation runner (\<^verbatim>\<open>src/evaluator/evaluation_runner.py\<close>) works on a
  pandas table of rating observations. The Django model \<^verbatim>\<open>analytics.models.Rating\<close>
  is not among the sources; the runner reads its columns \<^verbatim>\<open>user_id\<close>,
  \<^verbatim>\<open>movie_id\<close> and \<^verbatim>\<open>rating_timestamp\<close>, and the specification names a numeric
  \<^verbatim>\<open>rating\<close> besides. Identifiers are character fields (as \<^verbatim>\<open>user_id\<close> is in
  \<^verbatim>\<open>collector/models.py\<close>), the timestamp is any integer clock reading. All columns are
  non-null, so that \<^verbatim>\<open>count()\<close> of a group is its number of rows.
\<close>

record Rating =
  user_id :: string
  movie_id :: string
  rating :: rat
  rating_timestamp :: int

text \<open>
  A row of a table is an observation with its index label: the label is what pandas uses as
  the identity of a row (\<^verbatim>\<open>test_temp.index.isin(test.index)\<close>), and it survives
  filtering, sorting and appending. A table has its column names and its rows in order.
\<close>

type_synonym row = "nat \<times> Rating"

record DataFrame =
  columns :: "string list"
  rows :: "row list"

abbreviation uid :: "row \<Rightarrow> string" where
  "uid r \<equiv> user_id (snd r)"

abbreviation index :: "DataFrame \<Rightarrow> nat list" where
  "index df \<equiv> map fst (rows df)"

datatype error =
    KeyError | ValueError | ZeroDivisionError | InvalidOperation | UnboundLocalError
  | Raised string

text \<open>
  Modelled from the spec: the columns of the \<^verbatim>\<open>Rating\<close> table, whose declaration is
  missing from the sources (section 3 of the specification lists the fields).
\<close>

definition rating_columns :: "string list" where
  "rating_columns = [''user_id'', ''movie_id'', ''rating'', ''rating_timestamp'']"

text \<open>
  \<^verbatim>\<open>pd.DataFrame.from_records(ratings_rows)\<close>: the rows get the labels
  \<open>0, 1, \<dots>\<close>; the column names are read off the first record, so no record means no
  column.
\<close>

definition from_records :: "Rating list \<Rightarrow> DataFrame" where
  "from_records rs =
     (if rs = [] then \<lparr>columns = [], rows = []\<rparr>
      else \<lparr>columns = rating_columns, rows = zip [0..<length rs] rs\<rparr>)"

section \<open>The data cleaner\<close>

text \<open>
  \<^verbatim>\<open>ratings[['user_id', 'movie_id']].groupby('user_id').count().reset_index()\<close>:
  one line per user, in the order of the keys, with the number of that user's rows.
\<close>

definition groupby_count :: "row list \<Rightarrow> (string \<times> nat) list" where
  "groupby_count rs =
     map (\<lambda>u. (u, length (filter (\<lambda>r. uid r = u) rs))) (sort (remdups (map uid rs)))"

definition clean_data :: "DataFrame \<Rightarrow> int \<Rightarrow> error + DataFrame" where
  "clean_data ratings min_ratings =
     (if \<not> set [''user_id'', ''movie_id''] \<subseteq> set (columns ratings) then Inl KeyError
      else
        let user_count = groupby_count (rows ratings);
            user_ids = map fst (filter (\<lambda>(u, c). min_ratings < int c) user_count)
        in Inr (ratings\<lparr>rows := filter (\<lambda>r. uid r \<in> set user_ids) (rows ratings)\<rparr>))"

section \<open>The splitter\<close>

text \<open>
  \<^verbatim>\<open>sort_values('rating_timestamp', ascending=False)\<close>: latest first. The sorting
  routine (quicksort by default) is free in the order of rows of equal timestamp; that order
  is the parameter \<open>ties\<close>, which ranks the rows of the table it is given in any way, and
  rows of equal timestamp come out by rank. Every outcome of the routine is the outcome for
  some \<open>ties\<close>, and \<open>\<lambda>rs r. 0\<close> is the stable sort.
\<close>

type_synonym tie_order = "row list \<Rightarrow> row \<Rightarrow> nat"

definition sort_values_desc :: "tie_order \<Rightarrow> row list \<Rightarrow> row list" where
  "sort_values_desc ties rs =
     sort_key (\<lambda>r. - rating_timestamp (snd r)) (sort_key (ties rs) rs)"

text \<open>
  \<^verbatim>\<open>groupby('user_id').head(n)\<close> keeps, in the order of the table, the rows at the
  positions \<^verbatim>\<open>[:n]\<close> of their own group: for \<open>n \<ge> 0\<close> the rows with fewer than \<open>n\<close>
  rows of the group before them, for \<open>n < 0\<close> the rows with at least \<open>- n\<close> rows of the
  group after them (pandas 1.4 and 1.5; earlier versions keep no row for \<open>n < 0\<close>, and agree
  for \<open>n \<ge> 0\<close>). The count is compared with \<open>n\<close> as a number: \<open>min_rank\<close> is an integer or,
  where a caller passes \<^verbatim>\<open>min_number_of_ratings / 2\<close>, a fraction such as 2.5. The first
  argument holds the rows already passed.
\<close>

fun head_from :: "row list \<Rightarrow> rat \<Rightarrow> row list \<Rightarrow> row list" where
  "head_from seen n [] = []"
| "head_from seen n (r # rs) =
     (if (if 0 \<le> n then of_nat (length (filter (\<lambda>s. uid s = uid r) seen)) < n
          else - n \<le> of_nat (length (filter (\<lambda>s. uid s = uid r) rs)))
      then r # head_from (r # seen) n rs
      else head_from (r # seen) n rs)"

definition groupby_head :: "rat \<Rightarrow> row list \<Rightarrow> row list" where
  "groupby_head n rs = head_from [] n rs"

definition split_data ::
  "tie_order \<Rightarrow> rat \<Rightarrow> DataFrame \<Rightarrow> string list \<Rightarrow> string list \<Rightarrow>
     error + (DataFrame \<times> DataFrame)" where
  "split_data ties min_rank ratings test_users train_users =
     (if \<not> set [''user_id'', ''rating_timestamp''] \<subseteq> set (columns ratings) then Inl KeyError
      else
        let train = filter (\<lambda>r. uid r \<in> set train_users) (rows ratings);
            test_temp =
              sort_values_desc ties (filter (\<lambda>r. uid r \<in> set test_users) (rows ratings));
            test = groupby_head min_rank test_temp;
            additional_training_data = filter (\<lambda>r. fst r \<notin> set (map fst test)) test_temp;
            train = train @ additional_training_data
        in Inr (ratings\<lparr>rows := test\<rparr>, ratings\<lparr>rows := train\<rparr>))"

section \<open>Decimal arithmetic\<close>

text \<open>
  The cross-validation loop accumulates in Python's \<^verbatim>\<open>Decimal\<close>. A finite
  \<^verbatim>\<open>Decimal\<close> is a rational number; what an operation returns is the exact result
  rounded to the precision of the context, by default 28 significant digits, ties to the
  even digit (\<^verbatim>\<open>prec=28, rounding=ROUND_HALF_EVEN\<close>). The exponent limits of the
  context (\<open>\<plusminus>999999\<close>) and the special values are left out: metrics are finite and small.
\<close>

type_synonym decimal = rat

text \<open>The number of decimal digits of a positive integer, less one.\<close>

function ilog10 :: "int \<Rightarrow> int" where
  "ilog10 n = (if n < 10 then 0 else 1 + ilog10 (n div 10))"
  by pat_completeness auto
termination
  by (relation "measure nat") auto

declare ilog10.simps [simp del]

definition pow10 :: "int \<Rightarrow> rat" where
  "pow10 e = (if 0 \<le> e then 10 ^ nat e else 1 / 10 ^ nat (- e))"

text \<open>The exponent of the leading digit of a non-zero number.\<close>

definition adjusted :: "rat \<Rightarrow> int" where
  "adjusted x =
     (let a = \<bar>x\<bar>;
          d = (if 1 \<le> a then ilog10 \<lfloor>a\<rfloor> else - ilog10 \<lfloor>1 / a\<rfloor> - 1)
      in if pow10 (d + 1) \<le> a then d + 1 else d)"

definition round_half_even :: "rat \<Rightarrow> int" where
  "round_half_even r =
     (let f = \<lfloor>r\<rfloor>; d = r - of_int f
      in if d < 1 / 2 then f
         else if 1 / 2 < d then f + 1
         else if even f then f else f + 1)"

definition prec :: int where
  "prec = 28"

definition context_round :: "rat \<Rightarrow> decimal" where
  "context_round x =
     (if x = 0 then 0
      else let e = adjusted x - (prec - 1)
           in of_int (round_half_even (x / pow10 e)) * pow10 e)"

definition dec_add :: "decimal \<Rightarrow> decimal \<Rightarrow> decimal" where
  "dec_add a b = context_round (a + b)"

text \<open>
  Division by the integer number of folds. A zero divisor raises \<^verbatim>\<open>DivisionByZero\<close>
  (a \<^verbatim>\<open>ZeroDivisionError\<close>), and \<^verbatim>\<open>InvalidOperation\<close> when the dividend is zero too.
\<close>

definition dec_div :: "decimal \<Rightarrow> int \<Rightarrow> error + decimal" where
  "dec_div a n =
     (if n = 0 then Inl (if a = 0 then InvalidOperation else ZeroDivisionError)
      else Inr (context_round (a / of_int n)))"

section \<open>Library routines the runner calls\<close>

text \<open>
  \<^verbatim>\<open>Series.unique()\<close>: the distinct values in the order of their first appearance.
\<close>

definition unique :: "'a list \<Rightarrow> 'a list" where
  "unique xs = rev (remdups (rev xs))"

text \<open>
  The random generator of numpy is global state. \<^verbatim>\<open>np.random.seed(n)\<close> replaces it
  by the state that belongs to \<open>n\<close>; \<^verbatim>\<open>np.random.shuffle(x)\<close> walks the array from
  its last position down to position 1 and swaps position \<open>i\<close> with a position drawn from
  \<open>0..i\<close>. The generator itself (Mersenne Twister) is a parameter.
\<close>

record 'g RandomState =
  seed :: "nat \<Rightarrow> 'g"
  rk_interval :: "nat \<Rightarrow> 'g \<Rightarrow> nat \<times> 'g"

fun shuffle_from :: "'g RandomState \<Rightarrow> nat \<Rightarrow> 'g \<Rightarrow> 'a list \<Rightarrow> 'a list \<times> 'g" where
  "shuffle_from rng 0 g xs = (xs, g)"
| "shuffle_from rng (Suc i) g xs =
     (let (j, g') = rk_interval rng (Suc i) g
      in shuffle_from rng i g' (xs[Suc i := xs ! j, j := xs ! Suc i]))"

definition shuffle :: "'g RandomState \<Rightarrow> 'g \<Rightarrow> 'a list \<Rightarrow> 'a list \<times> 'g" where
  "shuffle rng g xs = shuffle_from rng (length xs - 1) g xs"

text \<open>
  \<^verbatim>\<open>KFold(n_splits)\<close> of scikit-learn refuses fewer than two splits when it is
  built, and more splits than samples when it is asked to split. The test folds are
  consecutive blocks of positions, the first \<open>n mod k\<close> of them one longer; the training
  positions of a fold are all the others, in order.
\<close>

definition KFold :: "int \<Rightarrow> error + nat" where
  "KFold n_splits = (if n_splits \<le> 1 then Inl ValueError else Inr (nat n_splits))"

definition fold_sizes :: "nat \<Rightarrow> nat \<Rightarrow> nat list" where
  "fold_sizes n_splits n_samples =
     map (\<lambda>i. n_samples div n_splits + (if i < n_samples mod n_splits then 1 else 0))
       [0..<n_splits]"

fun test_folds :: "nat \<Rightarrow> nat list \<Rightarrow> nat list list" where
  "test_folds current [] = []"
| "test_folds current (fold_size # sizes) =
     [current..<current + fold_size] # test_folds (current + fold_size) sizes"

definition kfold_split :: "nat \<Rightarrow> nat \<Rightarrow> error + (nat list \<times> nat list) list" where
  "kfold_split n_splits n_samples =
     (if n_samples < n_splits then Inl ValueError
      else Inr (map (\<lambda>test. (filter (\<lambda>i. i \<notin> set test) [0..<n_samples], test))
                  (test_folds 0 (fold_sizes n_splits n_samples))))"

section \<open>The evaluation runner\<close>

text \<open>
  The builder, the recommender and the two metric evaluators are other modules of the
  project. They work on state of their own (the fitted model, files under the save path),
  here a value of type \<open>'w\<close> that every call takes and returns; any of them may raise.
  A runner without a builder has \<open>None\<close> there. The parameters are a dictionary, or
  \<open>None\<close>. \<open>min_rank\<close> is a Python number, \<open>min_number_of_ratings\<close> and
  \<open>number_test_users\<close> are integers.
\<close>

type_synonym 'p params = "(string \<times> 'p) list"

record ('w, 'p) EvaluationRunner =
  folds :: int
  builder :: "('w \<Rightarrow> DataFrame \<Rightarrow> 'p params option \<Rightarrow> error + 'w) option"
  K :: int
  params :: "'p params option"

record ('w, 'p) collaborators =
  set_save_path :: "'w \<Rightarrow> 'p \<Rightarrow> error + 'w"
  calculate_mean_average_precision ::
    "int \<Rightarrow> 'w \<Rightarrow> DataFrame \<Rightarrow> DataFrame \<Rightarrow> error + ((decimal \<times> decimal) \<times> 'w)"
  mean_average_error :: "'w \<Rightarrow> DataFrame \<Rightarrow> DataFrame \<Rightarrow> error + (decimal \<times> 'w)"

text \<open>
  The dictionary the runner returns; the single pass alone fills \<^verbatim>\<open>'users'\<close>.
\<close>

record results =
  map_score :: decimal
  ar :: decimal
  mae :: decimal
  users :: "nat option"

subsection \<open>Single pass\<close>

text \<open>
  Lines 95 to 100: the distinct users, shuffled under seed 42, the first 70 percent for
  training. \<^verbatim>\<open>int(len(users) * 70 / 100)\<close> rounds down; the quotient is computed in
  floating point, which is exact far beyond any number of users. The state of the generator
  that the caller had is overwritten by the seed. The result has the two cohorts, the
  shuffled array and the state the generator is left in.
\<close>

definition train_test_users ::
  "'g RandomState \<Rightarrow> 'g \<Rightarrow> DataFrame \<Rightarrow> string list \<times> string list \<times> string list \<times> 'g" where
  "train_test_users rng g ratings =
     (let us = unique (map uid (rows ratings));
          train_data_len = length us * 70 div 100;
          g = seed rng 42;
          (us, g) = shuffle rng g us
      in (take train_data_len us, drop train_data_len us, us, g))"

text \<open>Lines 110 to 115: fitting, when there is a builder.\<close>

definition run_builder ::
  "('w, 'p) EvaluationRunner \<Rightarrow> ('w, 'p) collaborators \<Rightarrow> 'w \<Rightarrow> DataFrame \<Rightarrow> error + 'w" where
  "run_builder runner env w train_data =
     (case builder runner of
        None \<Rightarrow> Inr w
      | Some build \<Rightarrow>
          (case params runner of
             None \<Rightarrow> build w train_data None
           | Some ps \<Rightarrow>
               if ps = [] then build w train_data None
               else (case build w train_data (Some ps) of
                       Inl e \<Rightarrow> Inl e
                     | Inr w \<Rightarrow>
                         (case map_of ps ''save_path'' of
                            None \<Rightarrow> Inl KeyError
                          | Some path \<Rightarrow> set_save_path env w path))))"

definition calculate_using_ratings_no_crossvalidation ::
  "('w, 'p) EvaluationRunner \<Rightarrow> ('w, 'p) collaborators \<Rightarrow> 'g RandomState \<Rightarrow> tie_order \<Rightarrow>
     'w \<Rightarrow> 'g \<Rightarrow> DataFrame \<Rightarrow> int \<Rightarrow> rat \<Rightarrow> error + (results \<times> 'w \<times> 'g)" where
  "calculate_using_ratings_no_crossvalidation runner env rng ties w g all_ratings
       min_number_of_ratings min_rank =
     (case clean_data all_ratings min_number_of_ratings of
        Inl e \<Rightarrow> Inl e
      | Inr ratings \<Rightarrow>
          let (train_users, test_users, us, g) = train_test_users rng g ratings
          in (case split_data ties min_rank ratings test_users train_users of
                Inl e \<Rightarrow> Inl e
              | Inr (test_data, train_data) \<Rightarrow>
                  (case run_builder runner env w train_data of
                     Inl e \<Rightarrow> Inl e
                   | Inr w \<Rightarrow>
                       (case calculate_mean_average_precision env (K runner) w
                               train_data test_data of
                          Inl e \<Rightarrow> Inl e
                        | Inr ((m, a), w) \<Rightarrow>
                            Inr (\<lparr>map_score = m, ar = a, mae = 0,
                                   users = Some (length us)\<rparr>, w, g)))))"

subsection \<open>Cross-validation\<close>

text \<open>
  One turn of the loop up to its three metrics (lines 140 to 156): split by the users at
  the fold's positions, fit without parameters, evaluate ranking, evaluate error.
\<close>

definition evaluate_fold ::
  "('w, 'p) EvaluationRunner \<Rightarrow> ('w, 'p) collaborators \<Rightarrow> tie_order \<Rightarrow> rat \<Rightarrow> DataFrame \<Rightarrow>
     string list \<Rightarrow> nat list \<times> nat list \<Rightarrow> 'w \<Rightarrow>
     error + ((decimal \<times> decimal \<times> decimal) \<times> 'w)" where
  "evaluate_fold runner env ties min_rank ratings us part w =
     (case part of (train, test) \<Rightarrow>
        (case split_data ties min_rank ratings (map ((!) us) test) (map ((!) us) train) of
           Inl e \<Rightarrow> Inl e
         | Inr (test_data, train_data) \<Rightarrow>
             (case (case builder runner of
                      None \<Rightarrow> Inr w
                    | Some build \<Rightarrow> build w train_data None) of
                Inl e \<Rightarrow> Inl e
              | Inr w \<Rightarrow>
                  (case calculate_mean_average_precision env (K runner) w
                          train_data test_data of
                     Inl e \<Rightarrow> Inl e
                   | Inr ((m, a), w) \<Rightarrow>
                       (case mean_average_error env w train_data test_data of
                          Inl e \<Rightarrow> Inl e
                        | Inr (err, w) \<Rightarrow> Inr ((m, a, err), w))))))"

text \<open>
  The loop: the three running sums, and the dictionary that every turn writes anew from
  them (lines 154 to 159). Before the first turn there is no dictionary.
\<close>

fun validation_loop ::
  "('w, 'p) EvaluationRunner \<Rightarrow> ('w, 'p) collaborators \<Rightarrow> tie_order \<Rightarrow> rat \<Rightarrow> DataFrame \<Rightarrow>
     string list \<Rightarrow> (nat list \<times> nat list) list \<Rightarrow> 'w \<Rightarrow> decimal \<times> decimal \<times> decimal \<Rightarrow>
     results option \<Rightarrow> error + (results option \<times> 'w)" where
  "validation_loop runner env ties min_rank ratings us [] w acc res = Inr (res, w)"
| "validation_loop runner env ties min_rank ratings us (part # rest) w acc res =
     (case acc of (maps, ars, maes) \<Rightarrow>
        (case evaluate_fold runner env ties min_rank ratings us part w of
           Inl e \<Rightarrow> Inl e
         | Inr ((m, a, err), w) \<Rightarrow>
             let maps = dec_add maps m;
                 ars = dec_add ars a;
                 maes = dec_add maes err
             in (case dec_div maps (folds runner) of
                   Inl e \<Rightarrow> Inl e
                 | Inr rm \<Rightarrow>
                     (case dec_div ars (folds runner) of
                        Inl e \<Rightarrow> Inl e
                      | Inr ra \<Rightarrow>
                          (case dec_div maes (folds runner) of
                             Inl e \<Rightarrow> Inl e
                           | Inr re \<Rightarrow>
                               validation_loop runner env ties min_rank ratings us rest w
                                 (maps, ars, maes)
                                 (Some \<lparr>map_score = rm, ar = ra, mae = re,
                                         users = None\<rparr>))))))"

definition calculate_using_ratings ::
  "('w, 'p) EvaluationRunner \<Rightarrow> ('w, 'p) collaborators \<Rightarrow> tie_order \<Rightarrow> 'w \<Rightarrow> DataFrame \<Rightarrow>
     int \<Rightarrow> rat \<Rightarrow> error + (results \<times> 'w)" where
  "calculate_using_ratings runner env ties w all_ratings min_number_of_ratings min_rank =
     (case clean_data all_ratings min_number_of_ratings of
        Inl e \<Rightarrow> Inl e
      | Inr ratings \<Rightarrow>
          let us = unique (map uid (rows ratings))
          in (case KFold (folds runner) of
                Inl e \<Rightarrow> Inl e
              | Inr kf \<Rightarrow>
                  (case kfold_split kf (length us) of
                     Inl e \<Rightarrow> Inl e
                   | Inr splits \<Rightarrow>
                       (case validation_loop runner env ties min_rank ratings us splits w
                               (0, 0, 0) None of
                          Inl e \<Rightarrow> Inl e
                        | Inr (None, w) \<Rightarrow> Inl UnboundLocalError
                        | Inr (Some res, w) \<Rightarrow> Inr (res, w)))))"

subsection \<open>Entry point\<close>

text \<open>
  The rating store is the list of its records. With \<open>number_test_users = -1\<close> all of
  them are fetched; otherwise those of the users with most ratings among the users with
  more than \<open>min_number_of_ratings\<close>. The database decides the order among users with
  equally many ratings, here it is the order of the user ids; a negative slice bound is
  refused by the query layer with the message below (as an \<^verbatim>\<open>AssertionError\<close> or a
  \<^verbatim>\<open>ValueError\<close>, by the version of Django). No property below depends on either.
\<close>

definition fetch_ratings :: "Rating list \<Rightarrow> int \<Rightarrow> int \<Rightarrow> error + Rating list" where
  "fetch_ratings store min_number_of_ratings number_test_users =
     (if number_test_users = - 1 then Inr store
      else if number_test_users < 0 then Inl (Raised ''Negative indexing is not supported.'')
      else
        let movie_count =
              map (\<lambda>u. (u, length (filter (\<lambda>r. user_id r = u) store)))
                (sort (remdups (map user_id store)));
            user_ids =
              map fst (sort_key (\<lambda>(u, c). - int c)
                (filter (\<lambda>(u, c). min_number_of_ratings < int c) movie_count));
            test_user_ids = take (nat number_test_users) user_ids
        in Inr (filter (\<lambda>r. user_id r \<in> set test_user_ids) store))"

definition calculate ::
  "('w, 'p) EvaluationRunner \<Rightarrow> ('w, 'p) collaborators \<Rightarrow> 'g RandomState \<Rightarrow> tie_order \<Rightarrow>
     Rating list \<Rightarrow> 'w \<Rightarrow> 'g \<Rightarrow> int \<Rightarrow> rat \<Rightarrow> int \<Rightarrow> error + (results \<times> 'w \<times> 'g)" where
  "calculate runner env rng ties store w g min_number_of_ratings min_rank number_test_users =
     (case fetch_ratings store min_number_of_ratings number_test_users of
        Inl e \<Rightarrow> Inl e
      | Inr ratings_rows \<Rightarrow>
          let all_ratings = from_records ratings_rows
          in if folds runner = 0
             then calculate_using_ratings_no_crossvalidation runner env rng ties w g all_ratings
                    min_number_of_ratings min_rank
             else (case calculate_using_ratings runner env ties w all_ratings
                          min_number_of_ratings min_rank of
                     Inl e \<Rightarrow> Inl e
                   | Inr (res, w) \<Rightarrow> Inr (res, w, g)))"

section \<open>Notions the properties are stated in\<close>

text \<open>The observations of one user, in the order of the table.\<close>

definition rows_of :: "string \<Rightarrow> row list \<Rightarrow> row list" where
  "rows_of u rs = filter (\<lambda>r. uid r = u) rs"

text \<open>
  Index labels identify observations only when no two rows carry the same label, as in
  every table that \<open>from_records\<close> builds and in every part of such a table.
\<close>

definition unique_index :: "DataFrame \<Rightarrow> bool" where
  "unique_index df = distinct (index df)"

definition has_columns :: "string list \<Rightarrow> DataFrame \<Rightarrow> bool" where
  "has_columns cs df = (set cs \<subseteq> set (columns df))"

text \<open>
  The cleaner as the specification words it: the observations of the users with strictly
  more than \<open>min_ratings\<close> observations, each as it was.
\<close>

definition clean_spec :: "row list \<Rightarrow> int \<Rightarrow> row list" where
  "clean_spec rs min_ratings = filter (\<lambda>r. min_ratings < int (length (rows_of (uid r) rs))) rs"

text \<open>
  The builder, the recommender and the evaluators return on every input, and parameters
  given to a runner with a builder name a save path.
\<close>

definition collaborators_return ::
  "('w, 'p) EvaluationRunner \<Rightarrow> ('w, 'p) collaborators \<Rightarrow> bool" where
  "collaborators_return runner env =
     ((\<forall>build. builder runner = Some build \<longrightarrow> (\<forall>w tr ps. \<exists>w'. build w tr ps = Inr w'))
      \<and> (\<forall>w p. \<exists>w'. set_save_path env w p = Inr w')
      \<and> (\<forall>k w tr te. \<exists>v. calculate_mean_average_precision env k w tr te = Inr v)
      \<and> (\<forall>w tr te. \<exists>v. mean_average_error env w tr te = Inr v)
      \<and> (\<forall>ps. builder runner \<noteq> None \<and> params runner = Some ps \<and> ps \<noteq> [] \<longrightarrow>
             map_of ps ''save_path'' \<noteq> None))"

text \<open>The generator keeps to its contract: a draw for position \<open>i\<close> is at most \<open>i\<close>.\<close>

definition draws_in_range :: "'g RandomState \<Rightarrow> bool" where
  "draws_in_range rng = (\<forall>i g. fst (rk_interval rng i g) \<le> i)"

text \<open>
  The metrics of the folds one after the other, as the loop obtains them: the list the
  averages are taken of.
\<close>

fun fold_values ::
  "('w, 'p) EvaluationRunner \<Rightarrow> ('w, 'p) collaborators \<Rightarrow> tie_order \<Rightarrow> rat \<Rightarrow> DataFrame \<Rightarrow>
     string list \<Rightarrow> (nat list \<times> nat list) list \<Rightarrow> 'w \<Rightarrow>
     error + ((decimal \<times> decimal \<times> decimal) list \<times> 'w)" where
  "fold_values runner env ties min_rank ratings us [] w = Inr ([], w)"
| "fold_values runner env ties min_rank ratings us (part # rest) w =
     (case evaluate_fold runner env ties min_rank ratings us part w of
        Inl e \<Rightarrow> Inl e
      | Inr (v, w) \<Rightarrow>
          (case fold_values runner env ties min_rank ratings us rest w of
             Inl e \<Rightarrow> Inl e
           | Inr (vs, w) \<Rightarrow> Inr (v # vs, w)))"

text \<open>
  The sum as the loop forms it, one rounded addition per fold starting from
  \<^verbatim>\<open>Decimal(0.0)\<close>, and the mean it returns; a number is exact when rounding to the
  context leaves it as it is.
\<close>

definition running_sum :: "decimal list \<Rightarrow> decimal" where
  "running_sum xs = foldl dec_add 0 xs"

definition fold_mean :: "decimal list \<Rightarrow> int \<Rightarrow> decimal" where
  "fold_mean xs n = context_round (running_sum xs / of_int n)"

definition exact :: "rat \<Rightarrow> bool" where
  "exact x = (context_round x = x)"

text \<open>No rounding on the way: every partial sum is exact, and so is the quotient.\<close>

definition sums_exact :: "rat list \<Rightarrow> int \<Rightarrow> bool" where
  "sums_exact xs n =
     (list_all (\<lambda>k. exact (sum_list (take k xs))) [0..<Suc (length xs)]
      \<and> exact (sum_list xs / of_int n))"

section \<open>Example data\<close>

definition u1_i1 :: Rating where
  "u1_i1 = \<lparr>user_id = ''u1'', movie_id = ''i1'', rating = 4, rating_timestamp = 1\<rparr>"

definition u1_i2 :: Rating where
  "u1_i2 = \<lparr>user_id = ''u1'', movie_id = ''i2'', rating = 3, rating_timestamp = 2\<rparr>"

definition u1_i3 :: Rating where
  "u1_i3 = \<lparr>user_id = ''u1'', movie_id = ''i3'', rating = 5, rating_timestamp = 3\<rparr>"

definition u2_i1 :: Rating where
  "u2_i1 = \<lparr>user_id = ''u2'', movie_id = ''i1'', rating = 2, rating_timestamp = 4\<rparr>"

definition u2_i2 :: Rating where
  "u2_i2 = \<lparr>user_id = ''u2'', movie_id = ''i2'', rating = 1, rating_timestamp = 5\<rparr>"

definition u3_i1 :: Rating where
  "u3_i1 = \<lparr>user_id = ''u3'', movie_id = ''i1'', rating = 5, rating_timestamp = 6\<rparr>"

text \<open>The table of the literal example of the specification: one user, three ratings.\<close>

definition one_user :: DataFrame where
  "one_user = from_records [u1_i1, u1_i2, u1_i3]"

definition one_user_test :: DataFrame where
  "one_user_test = \<lparr>columns = rating_columns, rows = [(2, u1_i3), (1, u1_i2)]\<rparr>"

definition one_user_train :: DataFrame where
  "one_user_train = \<lparr>columns = rating_columns, rows = [(0, u1_i1)]\<rparr>"

text \<open>The same user given as test user and as training user at once.\<close>

definition both_cohorts_train :: DataFrame where
  "both_cohorts_train =
     \<lparr>columns = rating_columns,
      rows = [(0, u1_i1), (1, u1_i2), (2, u1_i3), (0, u1_i1)]\<rparr>"

text \<open>Two users: three ratings of the first, two of the second.\<close>

definition two_users :: DataFrame where
  "two_users = from_records [u1_i1, u1_i2, u1_i3, u2_i1, u2_i2]"

definition two_users_test :: DataFrame where
  "two_users_test = \<lparr>columns = rating_columns, rows = [(2, u1_i3), (1, u1_i2)]\<rparr>"

definition two_users_train :: DataFrame where
  "two_users_train =
     \<lparr>columns = rating_columns, rows = [(3, u2_i1), (4, u2_i2), (0, u1_i1)]\<rparr>"

definition two_users_cleaned :: DataFrame where
  "two_users_cleaned =
     \<lparr>columns = rating_columns, rows = [(0, u1_i1), (1, u1_i2), (2, u1_i3)]\<rparr>"

text \<open>Three users with one rating each.\<close>

definition three_users :: DataFrame where
  "three_users = from_records [u1_i1, u2_i1, u3_i1]"

text \<open>
  A generator for the examples: the state is a counter, and the draw for position \<open>i\<close>
  is the counter modulo \<open>i + 1\<close>.
\<close>

definition counter_rng :: "nat RandomState" where
  "counter_rng = \<lparr>seed = (\<lambda>n. n), rk_interval = (\<lambda>i g. (g mod (i + 1), g + 1))\<rparr>"

text \<open>
  Evaluators for the examples. Their state counts the folds evaluated so far. The first
  gives the values 1, 2, 3, \<dots> to the folds in turn; the second gives 1 to the first fold and
  0 to the others.
\<close>

definition counting_env :: "(nat, string) collaborators" where
  "counting_env =
     \<lparr>set_save_path = (\<lambda>w p. Inr w),
      calculate_mean_average_precision = (\<lambda>k w tr te. Inr ((of_nat (Suc w), of_nat (Suc w)), w)),
      mean_average_error = (\<lambda>w tr te. Inr (of_nat (Suc w), Suc w))\<rparr>"

definition first_fold_env :: "(nat, string) collaborators" where
  "first_fold_env =
     \<lparr>set_save_path = (\<lambda>w p. Inr w),
      calculate_mean_average_precision = (\<lambda>k w tr te. Inr ((if w = 0 then 1 else 0, 0), w)),
      mean_average_error = (\<lambda>w tr te. Inr (0, Suc w))\<rparr>"

definition single_pass_runner :: "(nat, string) EvaluationRunner" where
  "single_pass_runner = \<lparr>folds = 0, builder = None, K = 10, params = None\<rparr>"

definition three_fold_runner :: "(nat, string) EvaluationRunner" where
  "three_fold_runner = \<lparr>folds = 3, builder = None, K = 10, params = None\<rparr>"

definition negative_fold_runner :: "(nat, string) EvaluationRunner" where
  "negative_fold_runner = \<lparr>folds = - 1, builder = None, K = 10, params = None\<rparr>"

text \<open>What is left of a table when cleaning removes every user.\<close>

definition no_users_left :: DataFrame where
  "no_users_left = \<lparr>columns = rating_columns, rows = []\<rparr>"

definition all_in_train :: DataFrame where
  "all_in_train =
     \<lparr>columns = rating_columns,
      rows = [(3, u2_i1), (4, u2_i2), (2, u1_i3), (1, u1_i2), (0, u1_i1)]\<rparr>"

text \<open>The three folds of three users, by position: (training, test).\<close>

definition three_folds :: "(nat list \<times> nat list) list" where
  "three_folds = [([1, 2], [0]), ([0, 2], [1]), ([0, 1], [2])]"

definition one_third_rounded :: decimal where
  "one_third_rounded = 3333333333333333333333333333 / 10 ^ 28"

definition counting_values :: "(decimal \<times> decimal \<times> decimal) list" where
  "counting_values = [(1, 1, 1), (2, 2, 2), (3, 3, 3)]"

definition first_fold_values :: "(decimal \<times> decimal \<times> decimal) list" where
  "first_fold_values = [(1, 0, 0), (0, 0, 0), (0, 0, 0)]"

text \<open>The stable sort: rows of equal timestamp keep their order.\<close>

definition no_ties :: tie_order where
  "no_ties = (\<lambda>rs r. 0)"

text \<open>The literal example split with \<open>min_rank = 2.5\<close>: all three ratings are test rows.\<close>

definition one_user_all_test :: DataFrame where
  "one_user_all_test =
     \<lparr>columns = rating_columns, rows = [(2, u1_i3), (1, u1_i2), (0, u1_i1)]\<rparr>"

text \<open>A table in which two rows carry the same index label, and its newest row.\<close>

definition same_label :: DataFrame where
  "same_label = \<lparr>columns = rating_columns, rows = [(0, u1_i1), (0, u1_i2)]\<rparr>"

definition same_label_test :: DataFrame where
  "same_label_test = \<lparr>columns = rating_columns, rows = [(0, u1_i2)]\<rparr>"

text \<open>
  Two ratings of one user at the same time, and an order of ties that puts the later label
  first.
\<close>

definition u1_i2_at_1 :: Rating where
  "u1_i2_at_1 = \<lparr>user_id = ''u1'', movie_id = ''i2'', rating = 3, rating_timestamp = 1\<rparr>"

definition tied :: DataFrame where
  "tied = from_records [u1_i1, u1_i2_at_1]"

definition later_label_first :: tie_order where
  "later_label_first = (\<lambda>rs r. length rs - fst r)"

section \<open>Properties of the cleaner\<close>

lemma set_user_ids:
  "set (map fst (filter (\<lambda>(u, c). m < int c) (groupby_count rs))) =
     {u \<in> uid ` set rs. m < int (length (rows_of u rs))}"
proof -
  have "map fst (filter (\<lambda>(u, c). m < int c) (groupby_count rs)) =
          filter (\<lambda>u. m < int (length (rows_of u rs))) (sort (remdups (map uid rs)))"
    by (simp add: groupby_count_def filter_map comp_def rows_of_def)
  then show ?thesis by auto
qed

lemma clean_data_rows:
  assumes "has_columns [''user_id'', ''movie_id''] df"
  shows "clean_data df m = Inr (df\<lparr>rows := clean_spec (rows df) m\<rparr>)"
proof -
  have "filter (\<lambda>r. uid r \<in> set (map fst (filter (\<lambda>(u, c). m < int c)
            (groupby_count (rows df))))) (rows df) = clean_spec (rows df) m"
    unfolding set_user_ids clean_spec_def by (rule filter_cong) auto
  with assms show ?thesis
    by (simp add: clean_data_def has_columns_def Let_def)
qed

lemma clean_data_KeyError:
  "\<not> has_columns [''user_id'', ''movie_id''] df \<Longrightarrow> clean_data df m = Inl KeyError"
  by (simp add: clean_data_def has_columns_def)

lemma rows_of_filter_uid:
  "rows_of u (filter (\<lambda>r. P (uid r)) rs) = (if P u then rows_of u rs else [])"
  by (induction rs) (auto simp: rows_of_def)

lemma rows_of_clean_spec:
  "rows_of u (clean_spec rs m) = (if m < int (length (rows_of u rs)) then rows_of u rs else [])"
  unfolding clean_spec_def
  by (rule rows_of_filter_uid [of u "\<lambda>u. m < int (length (rows_of u rs))" rs])

text \<open>
  Claim C6. On a table that has the two columns it reads, \<open>clean_data\<close> returns the table
  with exactly the rows of the users who have strictly more than \<open>min_ratings\<close> rows,
  each row as it was (label and fields) and in the order it had, under the same columns.
  So a user with exactly \<open>min_ratings\<close> rows loses all of them, and a user with
  \<open>min_ratings + 1\<close> rows keeps all of them.
\<close>

theorem clean_data_threshold:
  assumes "has_columns [''user_id'', ''movie_id''] ratings"
  shows "clean_data ratings min_ratings =
           Inr (ratings\<lparr>rows := clean_spec (rows ratings) min_ratings\<rparr>)
         \<and> (\<forall>u. int (length (rows_of u (rows ratings))) = min_ratings \<longrightarrow>
                rows_of u (clean_spec (rows ratings) min_ratings) = [])
         \<and> (\<forall>u. int (length (rows_of u (rows ratings))) = min_ratings + 1 \<longrightarrow>
                rows_of u (clean_spec (rows ratings) min_ratings) = rows_of u (rows ratings))"
  by (simp add: clean_data_rows [OF assms] rows_of_clean_spec)

theorem clean_data_threshold_witness:
  "has_columns [''user_id'', ''movie_id''] two_users
   \<and> int (length (rows_of ''u2'' (rows two_users))) = 2
   \<and> int (length (rows_of ''u1'' (rows two_users))) = 2 + 1
   \<and> clean_data two_users 2 = Inr two_users_cleaned
   \<and> rows_of ''u2'' (rows two_users_cleaned) = []
   \<and> rows_of ''u1'' (rows two_users_cleaned) = rows_of ''u1'' (rows two_users)"
proof -
  have cols: "has_columns [''user_id'', ''movie_id''] two_users"
    by code_simp
  have u2: "int (length (rows_of ''u2'' (rows two_users))) = 2"
    by code_simp
  have u1: "int (length (rows_of ''u1'' (rows two_users))) = 2 + 1"
    by code_simp
  have eq: "two_users\<lparr>rows := clean_spec (rows two_users) 2\<rparr> = two_users_cleaned"
    by code_simp
  have rs: "rows two_users_cleaned = clean_spec (rows two_users) 2"
    by code_simp
  from clean_data_threshold [OF cols, of 2] u1 u2 cols show ?thesis
    unfolding eq rs by blast
qed

text \<open>
  Claim C10. Cleaning is idempotent: whenever \<open>clean_data\<close> returns a table, cleaning
  that table again with the same threshold returns it unchanged.
\<close>

theorem clean_data_idempotent:
  assumes "clean_data ratings min_ratings = Inr cleaned"
  shows "clean_data cleaned min_ratings = Inr cleaned"
proof -
  have cols: "has_columns [''user_id'', ''movie_id''] ratings"
    using assms clean_data_KeyError [of ratings min_ratings] by auto
  have cleaned: "cleaned = ratings\<lparr>rows := clean_spec (rows ratings) min_ratings\<rparr>"
    using assms clean_data_rows [OF cols, of min_ratings] by simp
  have cols': "has_columns [''user_id'', ''movie_id''] cleaned"
    using cols by (simp add: cleaned has_columns_def)
  have "clean_spec (rows cleaned) min_ratings = rows cleaned"
    unfolding clean_spec_def [of "rows cleaned"] filter_id_conv
    by (auto simp: cleaned rows_of_clean_spec) (auto simp: clean_spec_def)
  then show ?thesis
    by (simp add: clean_data_rows [OF cols'])
qed

theorem clean_data_idempotent_witness:
  "clean_data two_users 2 = Inr two_users_cleaned
   \<and> clean_data two_users_cleaned 2 = Inr two_users_cleaned"
proof -
  have first: "clean_data two_users 2 = Inr two_users_cleaned"
    by code_simp
  from clean_data_idempotent [OF first] first show ?thesis
    by simp
qed

section \<open>Properties of the splitter\<close>

lemma head_from_subset: "set (head_from seen n rs) \<subseteq> set rs"
  by (induction rs arbitrary: seen) auto

lemma head_from_distinct:
  "distinct (map fst rs) \<Longrightarrow> distinct (map fst (head_from seen n rs))"
proof (induction rs arbitrary: seen)
  case Nil
  then show ?case by simp
next
  case (Cons r rs)
  have "fst r \<notin> fst ` set (head_from (r # seen) n rs)"
    using Cons.prems head_from_subset [of "r # seen" n rs] by auto
  with Cons show ?case by simp
qed

lemma count_below: "(of_nat c < (n::rat)) = (c < nat \<lceil>n\<rceil>)"
proof -
  have "(of_nat c < n) = (of_int (int c) < n)" by simp
  also have "\<dots> = (int c < \<lceil>n\<rceil>)" by (simp only: less_ceiling_iff)
  also have "\<dots> = (c < nat \<lceil>n\<rceil>)" by (simp only: zless_nat_eq_int_zless)
  finally show ?thesis .
qed

lemma rows_of_head_from:
  assumes "0 \<le> n"
  shows "rows_of u (head_from seen n rs) =
           take (nat \<lceil>n\<rceil> - length (rows_of u seen)) (rows_of u rs)"
proof (induction rs arbitrary: seen)
  case Nil
  then show ?case by (simp add: rows_of_def)
next
  case (Cons r rs)
  show ?case
  proof (cases "uid r = u")
    case True
    show ?thesis
    proof (cases "length (rows_of u seen) < nat \<lceil>n\<rceil>")
      case less: True
      then have "nat \<lceil>n\<rceil> - length (rows_of u seen) =
          Suc (nat \<lceil>n\<rceil> - Suc (length (rows_of u seen)))"
        by linarith
      with True less assms Cons.IH [of "r # seen"] show ?thesis
        by (simp add: rows_of_def count_below)
    next
      case False
      then have "nat \<lceil>n\<rceil> - length (rows_of u seen) = 0"
        "nat \<lceil>n\<rceil> - Suc (length (rows_of u seen)) = 0"
        by linarith+
      with True False assms Cons.IH [of "r # seen"] show ?thesis
        by (simp add: rows_of_def count_below)
    qed
  next
    case False
    with Cons.IH [of "r # seen"] show ?thesis
      by (simp add: rows_of_def)
  qed
qed

lemma rows_of_groupby_head:
  "0 \<le> n \<Longrightarrow> rows_of u (groupby_head n rs) = take (nat \<lceil>n\<rceil>) (rows_of u rs)"
  using rows_of_head_from [of n u "[]" rs] by (simp add: groupby_head_def rows_of_def)

lemma head_from_zero: "head_from seen 0 rs = []"
  by (induction rs arbitrary: seen) auto

lemma mset_sort_values_desc: "mset (sort_values_desc ties rs) = mset rs"
  by (simp add: sort_values_desc_def)

lemma set_sort_values_desc: "set (sort_values_desc ties rs) = set rs"
  by (simp add: sort_values_desc_def)

lemma sorted_sort_values_desc:
  "sorted (map (\<lambda>r. - rating_timestamp (snd r)) (sort_values_desc ties rs))"
  by (simp add: sort_values_desc_def)

lemma length_rows_of_sort_values_desc:
  "length (rows_of u (sort_values_desc ties rs)) = length (rows_of u rs)"
proof -
  have "mset (rows_of u (sort_values_desc ties rs)) = mset (rows_of u rs)"
    by (simp add: rows_of_def mset_sort_values_desc)
  then show ?thesis by (rule mset_eq_length)
qed

lemma sort_values_desc_distinct_times:
  assumes "mset rs = mset ys"
    and "inj_on (\<lambda>r. - rating_timestamp (snd r)) (set rs)"
    and "sorted (map (\<lambda>r. - rating_timestamp (snd r)) ys)"
  shows "sort_values_desc ties rs = ys"
  unfolding sort_values_desc_def
  by (rule sort_key_inj_key_eq) (simp_all add: assms)

lemma split_data_Inr:
  assumes "split_data ties min_rank ratings test_users train_users = Inr (test, train)"
  shows "rows test =
           groupby_head min_rank
             (sort_values_desc ties (filter (\<lambda>r. uid r \<in> set test_users) (rows ratings)))"
    and "rows train =
           filter (\<lambda>r. uid r \<in> set train_users) (rows ratings) @
           filter (\<lambda>r. fst r \<notin> set (index test))
             (sort_values_desc ties (filter (\<lambda>r. uid r \<in> set test_users) (rows ratings)))"
    and "columns test = columns ratings" and "columns train = columns ratings"
  using assms by (auto simp: split_data_def Let_def split: if_splits)

lemma split_data_total:
  "set [''user_id'', ''rating_timestamp''] \<subseteq> set (columns ratings) \<Longrightarrow>
   \<exists>test train. split_data ties min_rank ratings test_users train_users = Inr (test, train)"
  by (simp add: split_data_def Let_def)

lemma index_inj:
  "distinct (map fst rs) \<Longrightarrow> r \<in> set rs \<Longrightarrow> s \<in> set rs \<Longrightarrow> fst r = fst s \<Longrightarrow> r = s"
  by (meson distinct_map inj_onD)

lemma test_subset:
  assumes "split_data ties min_rank ratings test_users train_users = Inr (test, train)"
  shows "set (rows test) \<subseteq> {r \<in> set (rows ratings). uid r \<in> set test_users}"
  using head_from_subset [of "[]" min_rank
      "sort_values_desc ties (filter (\<lambda>r. uid r \<in> set test_users) (rows ratings))"]
  by (auto simp: split_data_Inr(1) [OF assms] groupby_head_def set_sort_values_desc)

lemma mset_filter_disjoint_union:
  "(\<And>x. x \<in> set xs \<Longrightarrow> \<not> (A x \<and> B x)) \<Longrightarrow>
   mset (filter A xs) + mset (filter B xs) = mset (filter (\<lambda>x. A x \<or> B x) xs)"
  by (induction xs) auto

lemma distinct_index_sort_values_desc:
  "distinct (map fst (sort_values_desc ties rs)) = distinct (map fst rs)"
proof -
  have "mset (map fst (sort_values_desc ties rs)) = mset (map fst rs)"
    by (simp add: mset_sort_values_desc)
  then show ?thesis by (rule mset_eq_imp_distinct_iff)
qed

lemma distinct_index_rows: "distinct (map fst rs) \<Longrightarrow> distinct rs"
  by (simp add: distinct_map)

lemma head_and_rest:
  assumes d: "distinct (map fst tt)"
  shows "mset (groupby_head n tt) +
         mset (filter (\<lambda>r. fst r \<notin> set (map fst (groupby_head n tt))) tt) = mset tt"
proof -
  let ?test = "groupby_head n tt"
  have sub: "set ?test \<subseteq> set tt"
    by (simp add: groupby_head_def head_from_subset)
  have rest: "filter (\<lambda>r. fst r \<notin> set (map fst ?test)) tt = filter (\<lambda>r. r \<notin> set ?test) tt"
  proof (rule filter_cong [OF refl])
    fix r assume r: "r \<in> set tt"
    show "(fst r \<notin> set (map fst ?test)) = (r \<notin> set ?test)"
    proof
      assume "fst r \<notin> set (map fst ?test)"
      then show "r \<notin> set ?test" by auto
    next
      assume n: "r \<notin> set ?test"
      show "fst r \<notin> set (map fst ?test)"
      proof
        assume "fst r \<in> set (map fst ?test)"
        then obtain t where t: "t \<in> set ?test" "fst t = fst r" by auto
        with sub have "t \<in> set tt" by auto
        with d r t(2) have "t = r" by (auto intro: index_inj)
        with t(1) n show False by simp
      qed
    qed
  qed
  have "distinct ?test"
    using d by (simp add: groupby_head_def head_from_distinct distinct_index_rows)
  moreover have "distinct (filter (\<lambda>r. r \<in> set ?test) tt)"
    using d by (simp add: distinct_index_rows)
  moreover have "set ?test = set (filter (\<lambda>r. r \<in> set ?test) tt)"
    using sub by auto
  ultimately have head: "mset ?test = mset (filter (\<lambda>r. r \<in> set ?test) tt)"
    by (rule iffD1 [OF set_eq_iff_mset_eq_distinct])
  have both: "mset (filter P tt) + mset (filter (\<lambda>r. \<not> P r) tt) = mset tt" for P
    by (induction tt) auto
  show ?thesis
    by (simp only: rest head both)
qed

lemma index_head_and_rest:
  "set (map fst (groupby_head n tt)) \<union>
   set (map fst (filter (\<lambda>r. fst r \<notin> set (map fst (groupby_head n tt))) tt)) = set (map fst tt)"
  using head_from_subset [of "[]" n tt] by (auto simp: groupby_head_def)

text \<open>
  Claim C1, amended. For a table with unique index labels and for cohorts that share no
  user, the two tables that \<open>split_data\<close> returns share no index label.
\<close>

theorem split_disjoint:
  assumes sp: "split_data ties min_rank ratings test_users train_users = Inr (test, train)"
    and ui: "unique_index ratings"
    and dj: "set test_users \<inter> set train_users = {}"
  shows "set (index test) \<inter> set (index train) = {}"
proof -
  have False if "i \<in> set (index test)" "i \<in> set (index train)" for i
  proof -
    from that(1) obtain t where t: "t \<in> set (rows test)" "fst t = i" by auto
    with test_subset [OF sp] have t': "t \<in> set (rows ratings)" "uid t \<in> set test_users"
      by auto
    from that have "i \<in> fst ` {r \<in> set (rows ratings). uid r \<in> set train_users}"
      unfolding split_data_Inr(2) [OF sp] by force
    then obtain s where s: "s \<in> set (rows ratings)" "uid s \<in> set train_users" "fst s = i"
      by auto
    from ui t'(1) s(1) t(2) s(3) have "t = s"
      unfolding unique_index_def by (auto intro: index_inj)
    with t'(2) s(2) dj show False by auto
  qed
  then show ?thesis by auto
qed

theorem split_disjoint_witness:
  "split_data no_ties 2 two_users [''u1''] [''u2''] = Inr (two_users_test, two_users_train)
   \<and> unique_index two_users
   \<and> set [''u1''] \<inter> set [''u2''] = {}
   \<and> set (index two_users_test) \<inter> set (index two_users_train) = {}"
proof -
  have sp: "split_data no_ties 2 two_users [''u1''] [''u2''] = Inr (two_users_test, two_users_train)"
    by code_simp
  have ui: "unique_index two_users"
    by code_simp
  have dj: "set [''u1''] \<inter> set [''u2''] = {}"
    by simp
  from split_disjoint [OF sp ui dj] sp ui dj show ?thesis
    by blast
qed

text \<open>
  Claim C1 as stated fails: with user \<open>u1\<close> in both cohorts the observations labelled
  1 and 2 are in the test table and in the training table.
\<close>

theorem split_overlap_counterexample:
  "split_data no_ties 2 one_user [''u1''] [''u1''] = Inr (one_user_test, both_cohorts_train)
   \<and> set (index one_user_test) \<inter> set (index both_cohorts_train) = {1, 2}"
  by code_simp

text \<open>
  Claim C2, amended. For any cohorts the index labels of the two returned tables are
  together the labels of the rows of the users of either cohort. For a table with unique
  labels and cohorts that share no user, the rows of the two tables are together, as a
  multiset, exactly those rows: each of them is in one table once, none is invented and none
  dropped.
\<close>

theorem split_complete:
  assumes sp: "split_data ties min_rank ratings test_users train_users = Inr (test, train)"
  shows "set (index test) \<union> set (index train) =
           set (map fst (filter (\<lambda>r. uid r \<in> set test_users \<union> set train_users) (rows ratings)))
         \<and> (unique_index ratings \<and> set test_users \<inter> set train_users = {} \<longrightarrow>
              mset (rows test) + mset (rows train) =
                mset (filter (\<lambda>r. uid r \<in> set test_users \<union> set train_users) (rows ratings)))"
proof (intro conjI impI)
  let ?tt = "sort_values_desc ties (filter (\<lambda>r. uid r \<in> set test_users) (rows ratings))"
  have test: "rows test = groupby_head min_rank ?tt"
    by (rule split_data_Inr(1) [OF sp])
  have train: "rows train = filter (\<lambda>r. uid r \<in> set train_users) (rows ratings) @
      filter (\<lambda>r. fst r \<notin> set (map fst (groupby_head min_rank ?tt))) ?tt"
    using split_data_Inr(2) [OF sp] by (simp add: test)
  have "set (index test) \<union> set (index train) =
      set (map fst (filter (\<lambda>r. uid r \<in> set train_users) (rows ratings))) \<union> set (map fst ?tt)"
    using index_head_and_rest [of min_rank ?tt] unfolding test train by auto
  then show "set (index test) \<union> set (index train) =
      set (map fst (filter (\<lambda>r. uid r \<in> set test_users \<union> set train_users) (rows ratings)))"
    by (auto simp: set_sort_values_desc)
next
  let ?tt = "sort_values_desc ties (filter (\<lambda>r. uid r \<in> set test_users) (rows ratings))"
  assume a: "unique_index ratings \<and> set test_users \<inter> set train_users = {}"
  have test: "rows test = groupby_head min_rank ?tt"
    by (rule split_data_Inr(1) [OF sp])
  have train: "rows train = filter (\<lambda>r. uid r \<in> set train_users) (rows ratings) @
      filter (\<lambda>r. fst r \<notin> set (map fst (groupby_head min_rank ?tt))) ?tt"
    using split_data_Inr(2) [OF sp] by (simp add: test)
  have "distinct (map fst ?tt)"
    using a by (simp add: distinct_index_sort_values_desc unique_index_def distinct_map_filter)
  from head_and_rest [OF this, of min_rank]
  have "mset (rows test) + mset (rows train) =
      mset (filter (\<lambda>r. uid r \<in> set train_users) (rows ratings)) + mset ?tt"
    unfolding test train by (simp add: ac_simps)
  also have "\<dots> = mset (filter (\<lambda>r. uid r \<in> set train_users) (rows ratings)) +
      mset (filter (\<lambda>r. uid r \<in> set test_users) (rows ratings))"
    by (simp add: mset_sort_values_desc)
  also have "\<dots> = mset (filter (\<lambda>r. uid r \<in> set train_users \<or> uid r \<in> set test_users) (rows ratings))"
    using a by (intro mset_filter_disjoint_union) auto
  also have "\<dots> = mset (filter (\<lambda>r. uid r \<in> set test_users \<union> set train_users) (rows ratings))"
    by (rule arg_cong [where f = mset], rule filter_cong) auto
  finally show "mset (rows test) + mset (rows train) =
      mset (filter (\<lambda>r. uid r \<in> set test_users \<union> set train_users) (rows ratings))" .
qed

theorem split_complete_witness:
  "split_data no_ties 2 two_users [''u1''] [''u2''] = Inr (two_users_test, two_users_train)
   \<and> unique_index two_users
   \<and> set [''u1''] \<inter> set [''u2''] = {}
   \<and> mset (rows two_users_test) + mset (rows two_users_train) = mset (rows two_users)"
proof -
  have sp: "split_data no_ties 2 two_users [''u1''] [''u2''] = Inr (two_users_test, two_users_train)"
    by code_simp
  have ui: "unique_index two_users"
    by code_simp
  have dj: "set [''u1''] \<inter> set [''u2''] = {}"
    by simp
  have pool: "filter (\<lambda>r. uid r \<in> set [''u1''] \<union> set [''u2'']) (rows two_users) = rows two_users"
    by code_simp
  from split_complete [OF sp] ui dj sp show ?thesis
    unfolding pool by blast
qed

text \<open>
  Claim C2 as stated fails: with user \<open>u1\<close> in both cohorts the observation labelled 1
  is in both returned tables, not in exactly one.
\<close>

theorem split_twice_counterexample:
  "split_data no_ties 2 one_user [''u1''] [''u1''] = Inr (one_user_test, both_cohorts_train)
   \<and> (1, u1_i2) \<in> set (rows one_user_test)
   \<and> (1, u1_i2) \<in> set (rows both_cohorts_train)"
  by code_simp

lemma sorted_desc_take_drop:
  assumes "sorted (map f xs)" "x \<in> set (take k xs)" "y \<in> set (drop k xs)"
  shows "f x \<le> f y"
proof -
  have "sorted (map f (take k xs) @ map f (drop k xs))"
    using assms(1) by (simp flip: map_append)
  with assms(2,3) show ?thesis
    by (auto simp: sorted_append)
qed

lemma test_user_rows:
  assumes sp: "split_data ties min_rank ratings test_users train_users = Inr (test, train)"
    and n: "0 \<le> min_rank"
  shows "rows_of u (rows test) =
           take (nat \<lceil>min_rank\<rceil>)
             (rows_of u (sort_values_desc ties
                (filter (\<lambda>r. uid r \<in> set test_users) (rows ratings))))"
  by (simp add: split_data_Inr(1) [OF sp] rows_of_groupby_head [OF n])

lemma cohort_user_rows:
  assumes "u \<in> set test_users"
  shows "rows_of u (filter (\<lambda>r. uid r \<in> set test_users) rs) = rows_of u rs"
  using assms unfolding rows_of_def filter_filter by (intro filter_cong) auto

lemma test_user_count:
  assumes sp: "split_data ties min_rank ratings test_users train_users = Inr (test, train)"
    and n: "0 \<le> min_rank"
    and u: "u \<in> set test_users"
  shows "length (rows_of u (rows test)) =
           min (nat \<lceil>min_rank\<rceil>) (length (rows_of u (rows ratings)))"
  by (simp add: test_user_rows [OF sp n] length_rows_of_sort_values_desc
      cohort_user_rows [OF u] min.commute)

lemma most_recent:
  assumes sp: "split_data ties min_rank ratings test_users train_users = Inr (test, train)"
    and n: "0 \<le> min_rank"
    and u: "u \<in> set test_users"
    and r: "r \<in> set (rows_of u (rows test))"
    and s: "s \<in> set (rows_of u (rows ratings))" "s \<notin> set (rows test)"
  shows "rating_timestamp (snd s) \<le> rating_timestamp (snd r)"
proof -
  let ?xs = "rows_of u (sort_values_desc ties
      (filter (\<lambda>r. uid r \<in> set test_users) (rows ratings)))"
  have t: "rows_of u (rows test) = take (nat \<lceil>min_rank\<rceil>) ?xs"
    by (rule test_user_rows [OF sp n])
  have srt: "sorted (map (\<lambda>r. - rating_timestamp (snd r)) ?xs)"
    unfolding rows_of_def by (rule sorted_filter) (rule sorted_sort_values_desc)
  have "set ?xs = set (rows_of u (filter (\<lambda>r. uid r \<in> set test_users) (rows ratings)))"
    by (simp add: rows_of_def set_sort_values_desc)
  then have "set ?xs = set (rows_of u (rows ratings))"
    by (simp only: cohort_user_rows [OF u])
  with s(1) have "s \<in> set ?xs" by simp
  then have "s \<in> set (take (nat \<lceil>min_rank\<rceil>) ?xs) \<union> set (drop (nat \<lceil>min_rank\<rceil>) ?xs)"
    by (metis append_take_drop_id set_append)
  moreover have "s \<notin> set (take (nat \<lceil>min_rank\<rceil>) ?xs)"
    using s(2) unfolding t [symmetric] by (simp add: rows_of_def)
  ultimately have "s \<in> set (drop (nat \<lceil>min_rank\<rceil>) ?xs)" by simp
  moreover have "r \<in> set (take (nat \<lceil>min_rank\<rceil>) ?xs)" using r by (simp add: t)
  ultimately have "- rating_timestamp (snd r) \<le> - rating_timestamp (snd s)"
    using sorted_desc_take_drop [OF srt] by blast
  then show ?thesis by simp
qed

lemma rest_to_train:
  assumes sp: "split_data ties min_rank ratings test_users train_users = Inr (test, train)"
    and ui: "unique_index ratings"
    and u: "u \<in> set test_users"
    and s: "s \<in> set (rows_of u (rows ratings))" "s \<notin> set (rows test)"
  shows "s \<in> set (rows train)"
proof -
  have s': "s \<in> set (rows ratings)" "uid s \<in> set test_users"
    using s(1) u by (auto simp: rows_of_def)
  have "fst s \<notin> set (index test)"
  proof
    assume "fst s \<in> set (index test)"
    then obtain t where t: "t \<in> set (rows test)" "fst t = fst s" by auto
    with test_subset [OF sp] have "t \<in> set (rows ratings)" by auto
    with ui s'(1) t(2) have "t = s" unfolding unique_index_def by (auto intro: index_inj)
    with t(1) s(2) show False by simp
  qed
  with s' show ?thesis
    by (simp add: split_data_Inr(2) [OF sp] set_sort_values_desc)
qed

lemma one_user_sorted:
  "sort_values_desc ties [(0, u1_i1), (1, u1_i2), (2, u1_i3)] =
     [(2, u1_i3), (1, u1_i2), (0, u1_i1)]"
  by (rule sort_values_desc_distinct_times)
     (simp_all add: u1_i1_def u1_i2_def u1_i3_def)

lemma one_user_split:
  "split_data ties 2 one_user [''u1''] [] = Inr (one_user_test, one_user_train)"
proof -
  have cohort: "filter (\<lambda>r. uid r \<in> set [''u1'']) (rows one_user) =
      [(0, u1_i1), (1, u1_i2), (2, u1_i3)]"
    by code_simp
  have none: "filter (\<lambda>r. uid r \<in> set []) (rows one_user) = []"
    by simp
  have head: "groupby_head 2 [(2, u1_i3), (1, u1_i2), (0, u1_i1)] = [(2, u1_i3), (1, u1_i2)]"
    by code_simp
  have cols: "set [''user_id'', ''rating_timestamp''] \<subseteq> set (columns one_user)"
    by code_simp
  have test: "one_user\<lparr>rows := [(2, u1_i3), (Suc 0, u1_i2)]\<rparr> = one_user_test"
    by code_simp
  have train: "one_user\<lparr>rows := [(0, u1_i1)]\<rparr> = one_user_train"
    by code_simp
  have sorted: "sort_values_desc ties (filter (\<lambda>r. uid r \<in> set [''u1'']) (rows one_user)) =
      [(2, u1_i3), (1, u1_i2), (0, u1_i1)]"
    by (simp only: cohort one_user_sorted)
  show ?thesis
    unfolding split_data_def Let_def sorted none head
    using cols by (simp add: test train)
qed

text \<open>
  Which of two ratings of equal time becomes the test row is decided by the order of ties.
\<close>

lemma ties_decide:
  "split_data no_ties 1 tied [''u1''] [] =
     Inr (\<lparr>columns = rating_columns, rows = [(0, u1_i1)]\<rparr>,
          \<lparr>columns = rating_columns, rows = [(1, u1_i2_at_1)]\<rparr>)
   \<and> split_data later_label_first 1 tied [''u1''] [] =
     Inr (\<lparr>columns = rating_columns, rows = [(1, u1_i2_at_1)]\<rparr>,
          \<lparr>columns = rating_columns, rows = [(0, u1_i1)]\<rparr>)"
  by code_simp

text \<open>
  Claim C3, amended. On a table that has the columns the splitter reads, with a
  \<open>min_rank\<close> that is not negative and with any order among rows of equal timestamp, the
  splitter returns, and for a user \<open>u\<close> of the test cohort the test table has
  \<open>\<lceil>min_rank\<rceil>\<close> of the user's rows, or all of them when there are fewer: at most
  \<open>min_rank\<close> rows of any user when \<open>min_rank\<close> is a whole number. They are rows of the
  user, and every row of \<open>u\<close> that is left out is no later than any that is taken. When
  index labels are unique the rows left out are in the training table. The literal example
  gives the ratings of time 3 and 2 as test rows and the rating of time 1 as training row.
\<close>

theorem test_set_most_recent:
  "(has_columns [''user_id'', ''rating_timestamp''] ratings \<and> 0 \<le> min_rank
    \<and> u \<in> set test_users \<longrightarrow>
      (\<exists>test train.
         split_data ties min_rank ratings test_users train_users = Inr (test, train)
         \<and> length (rows_of u (rows test)) =
             min (nat \<lceil>min_rank\<rceil>) (length (rows_of u (rows ratings)))
         \<and> (\<forall>v. length (rows_of v (rows test)) \<le> nat \<lceil>min_rank\<rceil>)
         \<and> (\<forall>k. min_rank = of_int k \<longrightarrow> (\<forall>v. int (length (rows_of v (rows test))) \<le> k))
         \<and> set (rows_of u (rows test)) \<subseteq> set (rows_of u (rows ratings))
         \<and> (\<forall>r \<in> set (rows_of u (rows test)). \<forall>s \<in> set (rows_of u (rows ratings)).
               s \<notin> set (rows test) \<longrightarrow> rating_timestamp (snd s) \<le> rating_timestamp (snd r))
         \<and> (unique_index ratings \<longrightarrow>
               (\<forall>s \<in> set (rows_of u (rows ratings)).
                  s \<notin> set (rows test) \<longrightarrow> s \<in> set (rows train)))))
   \<and> split_data ties 2 one_user [''u1''] [] = Inr (one_user_test, one_user_train)"
proof (intro conjI impI)
  show "split_data ties 2 one_user [''u1''] [] = Inr (one_user_test, one_user_train)"
    by (rule one_user_split)
next
  assume a: "has_columns [''user_id'', ''rating_timestamp''] ratings \<and> 0 \<le> min_rank
    \<and> u \<in> set test_users"
  then have n: "0 \<le> min_rank" and u: "u \<in> set test_users"
    and cols: "set [''user_id'', ''rating_timestamp''] \<subseteq> set (columns ratings)"
    by (simp_all add: has_columns_def)
  from split_data_total [OF cols] obtain test train where
    sp: "split_data ties min_rank ratings test_users train_users = Inr (test, train)"
    by blast
  have cap: "length (rows_of v (rows test)) \<le> nat \<lceil>min_rank\<rceil>" for v
    by (simp add: test_user_rows [OF sp n])
  have whole: "int (length (rows_of v (rows test))) \<le> k" if "min_rank = of_int k" for k v
    using cap [of v] that n by simp
  have sub: "set (rows_of u (rows test)) \<subseteq> set (rows_of u (rows ratings))"
    using test_subset [OF sp] by (auto simp: rows_of_def)
  have recent: "rating_timestamp (snd s) \<le> rating_timestamp (snd r)"
    if "r \<in> set (rows_of u (rows test))" "s \<in> set (rows_of u (rows ratings))"
      "s \<notin> set (rows test)" for r s
    using that by (rule most_recent [OF sp n u])
  have rest: "s \<in> set (rows train)"
    if "unique_index ratings" "s \<in> set (rows_of u (rows ratings))" "s \<notin> set (rows test)" for s
    using that by (intro rest_to_train [OF sp _ u])
  from sp test_user_count [OF sp n u] cap whole sub recent rest
  show "\<exists>test train.
         split_data ties min_rank ratings test_users train_users = Inr (test, train)
         \<and> length (rows_of u (rows test)) =
             min (nat \<lceil>min_rank\<rceil>) (length (rows_of u (rows ratings)))
         \<and> (\<forall>v. length (rows_of v (rows test)) \<le> nat \<lceil>min_rank\<rceil>)
         \<and> (\<forall>k. min_rank = of_int k \<longrightarrow> (\<forall>v. int (length (rows_of v (rows test))) \<le> k))
         \<and> set (rows_of u (rows test)) \<subseteq> set (rows_of u (rows ratings))
         \<and> (\<forall>r \<in> set (rows_of u (rows test)). \<forall>s \<in> set (rows_of u (rows ratings)).
               s \<notin> set (rows test) \<longrightarrow> rating_timestamp (snd s) \<le> rating_timestamp (snd r))
         \<and> (unique_index ratings \<longrightarrow>
               (\<forall>s \<in> set (rows_of u (rows ratings)).
                  s \<notin> set (rows test) \<longrightarrow> s \<in> set (rows train)))"
    by blast
qed

theorem test_set_most_recent_witness:
  "has_columns [''user_id'', ''rating_timestamp''] two_users
   \<and> (0::rat) \<le> 2
   \<and> ''u1'' \<in> set [''u1'']
   \<and> (2::rat) = of_int 2
   \<and> unique_index two_users
   \<and> split_data no_ties 2 two_users [''u1''] [''u2''] = Inr (two_users_test, two_users_train)
   \<and> length (rows_of ''u1'' (rows two_users_test)) =
       min (nat \<lceil>2::rat\<rceil>) (length (rows_of ''u1'' (rows two_users)))
   \<and> int (length (rows_of ''u1'' (rows two_users_test))) \<le> 2
   \<and> (0, u1_i1) \<in> set (rows_of ''u1'' (rows two_users))
   \<and> (0, u1_i1) \<notin> set (rows two_users_test)
   \<and> (0, u1_i1) \<in> set (rows two_users_train)"
proof -
  have cols: "has_columns [''user_id'', ''rating_timestamp''] two_users"
    by code_simp
  have n: "(0::rat) \<le> 2"
    by simp
  have u: "''u1'' \<in> set [''u1'']"
    by simp
  have k: "(2::rat) = of_int 2"
    by simp
  have ui: "unique_index two_users"
    by code_simp
  have sp: "split_data no_ties 2 two_users [''u1''] [''u2''] =
      Inr (two_users_test, two_users_train)"
    by code_simp
  have s: "(0, u1_i1) \<in> set (rows_of ''u1'' (rows two_users))"
    by code_simp
  have m: "(0, u1_i1) \<notin> set (rows two_users_test)"
    by code_simp
  note t = test_set_most_recent [where ratings = two_users and min_rank = 2 and u = "''u1''"
      and test_users = "[''u1'']" and train_users = "[''u2'']" and ties = no_ties]
  from t cols n u obtain test train where
    r: "split_data no_ties 2 two_users [''u1''] [''u2''] = Inr (test, train)"
      "length (rows_of ''u1'' (rows test)) =
         min (nat \<lceil>2::rat\<rceil>) (length (rows_of ''u1'' (rows two_users)))"
      "\<forall>k. (2::rat) = of_int k \<longrightarrow> (\<forall>v. int (length (rows_of v (rows test))) \<le> k)"
      "unique_index two_users \<longrightarrow>
         (\<forall>s \<in> set (rows_of ''u1'' (rows two_users)).
            s \<notin> set (rows test) \<longrightarrow> s \<in> set (rows train))"
    by blast
  from r(1) sp have eq: "test = two_users_test" "train = two_users_train"
    by simp_all
  from r(2) have len: "length (rows_of ''u1'' (rows two_users_test)) =
      min (nat \<lceil>2::rat\<rceil>) (length (rows_of ''u1'' (rows two_users)))"
    by (simp only: eq)
  from r(3) k have cap: "int (length (rows_of ''u1'' (rows two_users_test))) \<le> 2"
    unfolding eq by blast
  from r(4) ui s m have tr: "(0, u1_i1) \<in> set (rows two_users_train)"
    unfolding eq by blast
  from cols n u k ui sp len cap s m tr show ?thesis
    by (intro conjI)
qed

text \<open>
  Claim C3 as stated fails in three ways. With \<open>min_rank = 2.5\<close>, which callers pass, the
  test table has three ratings of the user, more than \<open>min_rank\<close>. With \<open>min_rank = -1\<close> it
  has two. And when two rows carry the same index label, the older one is left out of the test
  table and does not go to the training table either.
\<close>

theorem test_set_counterexample:
  "split_data no_ties (5 / 2) one_user [''u1''] [] = Inr (one_user_all_test, no_users_left)
   \<and> \<not> of_nat (length (rows_of ''u1'' (rows one_user_all_test))) \<le> (5 / 2 :: rat)
   \<and> split_data no_ties (- 1) one_user [''u1''] [] = Inr (one_user_test, one_user_train)
   \<and> \<not> of_nat (length (rows_of ''u1'' (rows one_user_test))) \<le> (- 1 :: rat)
   \<and> split_data no_ties 1 same_label [''u1''] [] = Inr (same_label_test, no_users_left)
   \<and> (0, u1_i1) \<in> set (rows_of ''u1'' (rows same_label))
   \<and> (0, u1_i1) \<notin> set (rows same_label_test)
   \<and> (0, u1_i1) \<notin> set (rows no_users_left)"
  by code_simp

section \<open>Properties of the single pass\<close>

lemma set_unique: "set (unique xs) = set xs"
  by (simp add: unique_def)

lemma distinct_unique: "distinct (unique xs)"
  by (simp add: unique_def)

lemma length_unique: "length (unique xs) = card (set xs)"
  using length_remdups_card_conv [of "rev xs"] by (simp add: unique_def)

lemma unique_Nil: "unique [] = []"
  by (simp add: unique_def)

lemma length_shuffle_from: "length (fst (shuffle_from rng i g xs)) = length xs"
  by (induction i arbitrary: g xs) (auto split: prod.splits)

lemma length_shuffle: "length (fst (shuffle rng g xs)) = length xs"
  by (simp add: shuffle_def length_shuffle_from)

lemma mset_shuffle_from:
  "draws_in_range rng \<Longrightarrow> i < length xs \<Longrightarrow> mset (fst (shuffle_from rng i g xs)) = mset xs"
proof (induction i arbitrary: g xs)
  case 0
  then show ?case by simp
next
  case (Suc i)
  obtain j g' where d: "rk_interval rng (Suc i) g = (j, g')"
    by (cases "rk_interval rng (Suc i) g")
  from Suc.prems(1) have "fst (rk_interval rng (Suc i) g) \<le> Suc i"
    unfolding draws_in_range_def by blast
  with d Suc.prems(2) have j: "j < length xs" by simp
  have "mset (xs[Suc i := xs ! j, j := xs ! Suc i]) = mset xs"
    using j Suc.prems(2) by (rule mset_swap [of j xs "Suc i"])
  moreover have "mset (fst (shuffle_from rng i g' (xs[Suc i := xs ! j, j := xs ! Suc i]))) =
      mset (xs[Suc i := xs ! j, j := xs ! Suc i])"
    using Suc.prems by (intro Suc.IH) simp_all
  ultimately show ?case by (simp add: d)
qed

lemma mset_shuffle: "draws_in_range rng \<Longrightarrow> mset (fst (shuffle rng g xs)) = mset xs"
proof (cases xs)
  case Nil
  then show ?thesis by (simp add: shuffle_def)
next
  case (Cons x ys)
  assume "draws_in_range rng"
  then show ?thesis
    unfolding shuffle_def by (rule mset_shuffle_from) (simp add: Cons)
qed

lemma train_test_users_eq:
  "train_test_users rng g ratings =
     (let us = fst (shuffle rng (seed rng 42) (unique (map uid (rows ratings))));
          n = length us * 70 div 100
      in (take n us, drop n us, us, snd (shuffle rng (seed rng 42) (unique (map uid (rows ratings))))))"
  by (simp add: train_test_users_def Let_def length_shuffle split: prod.splits)

lemma from_records_Nil: "from_records [] = \<lparr>columns = [], rows = []\<rparr>"
  by (simp add: from_records_def)

lemma columns_from_records: "rs \<noteq> [] \<Longrightarrow> columns (from_records rs) = rating_columns"
  by (simp add: from_records_def)

lemma unique_index_from_records: "unique_index (from_records rs)"
  by (simp add: unique_index_def from_records_def)

lemma clean_data_no_records: "clean_data (from_records []) m = Inl KeyError"
  by (simp add: from_records_Nil clean_data_def)

lemma clean_data_from_records:
  "rs \<noteq> [] \<Longrightarrow>
   clean_data (from_records rs) m =
     Inr \<lparr>columns = rating_columns, rows = clean_spec (rows (from_records rs)) m\<rparr>"
  using clean_data_rows [of "from_records rs" m]
  by (simp add: has_columns_def from_records_def rating_columns_def)

lemma run_builder_returns:
  "collaborators_return runner env \<Longrightarrow> \<exists>w'. run_builder runner env w train_data = Inr w'"
  unfolding collaborators_return_def run_builder_def
  by (auto split: option.splits sum.splits) (metis sum.distinct(1))+

lemma single_pass_returns:
  assumes "folds runner = 0"
    and "fetch_ratings store m n = Inr fetched"
    and "fetched \<noteq> []"
    and "collaborators_return runner env"
  shows "\<exists>res w' g'. calculate runner env rng ties store w g m min_rank n = Inr (res, w', g')"
proof -
  let ?cleaned = "\<lparr>columns = rating_columns, rows = clean_spec (rows (from_records fetched)) m\<rparr>"
  have c: "clean_data (from_records fetched) m = Inr ?cleaned"
    by (rule clean_data_from_records [OF assms(3)])
  obtain tr te us g2 where tt: "train_test_users rng g ?cleaned = (tr, te, us, g2)"
    by (cases "train_test_users rng g ?cleaned")
  have "set [''user_id'', ''rating_timestamp''] \<subseteq> set (columns ?cleaned)"
    by (simp add: rating_columns_def)
  from split_data_total [OF this]
  obtain test train where sp: "split_data ties min_rank ?cleaned te tr = Inr (test, train)"
    by blast
  from run_builder_returns [OF assms(4)]
  obtain w1 where b: "run_builder runner env w train = Inr w1"
    by blast
  from assms(4) obtain v where
    "calculate_mean_average_precision env (K runner) w1 train test = Inr v"
    unfolding collaborators_return_def by blast
  then obtain p a w2 where
    e: "calculate_mean_average_precision env (K runner) w1 train test = Inr ((p, a), w2)"
    by (cases v) auto
  show ?thesis
    by (simp add: calculate_def assms(1,2) calculate_using_ratings_no_crossvalidation_def
        c tt sp b e)
qed

lemma train_test_users_no_rows:
  "rows ratings = [] \<Longrightarrow> train_test_users rng g ratings = ([], [], [], seed rng 42)"
  by (simp add: train_test_users_def unique_def shuffle_def)

lemma split_data_zero:
  assumes "has_columns [''user_id'', ''rating_timestamp''] ratings"
  shows "split_data ties 0 ratings test_users train_users =
           Inr (ratings\<lparr>rows := []\<rparr>,
                ratings\<lparr>rows := filter (\<lambda>r. uid r \<in> set train_users) (rows ratings) @
                   sort_values_desc ties
                     (filter (\<lambda>r. uid r \<in> set test_users) (rows ratings))\<rparr>)"
  using assms
  by (simp add: split_data_def has_columns_def Let_def groupby_head_def head_from_zero)

lemma negative_folds_ValueError:
  assumes "folds runner < 0"
    and "fetch_ratings store m n = Inr fetched"
    and "fetched \<noteq> []"
  shows "calculate runner env rng ties store w g m min_rank n = Inl ValueError"
  using assms(1)
  by (simp add: calculate_def assms(2) calculate_using_ratings_def
      clean_data_from_records [OF assms(3)] KFold_def)

text \<open>
  Claim C5. The cohorts of the single pass do not depend on the state the random generator
  was in before the run, and neither does anything the run returns: the generator is
  seeded with 42 before the shuffle. The training users are the first
  \<open>\<lfloor>70 n / 100\<rfloor>\<close> of the \<open>n\<close> shuffled distinct users and the test users are the
  others; with a generator that draws within range, the two cohorts are together the
  distinct users of the cleaned table and share no user.
\<close>

theorem partition_deterministic:
  "train_test_users rng ga ratings = train_test_users rng gb ratings
   \<and> (folds runner = 0 \<longrightarrow>
        calculate runner env rng ties store w ga min_number_of_ratings min_rank number_test_users =
        calculate runner env rng ties store w gb min_number_of_ratings min_rank number_test_users)
   \<and> (\<forall>train_users test_users us g'.
        train_test_users rng ga ratings = (train_users, test_users, us, g') \<longrightarrow>
          us = fst (shuffle rng (seed rng 42) (unique (map uid (rows ratings))))
          \<and> train_users = take (length us * 70 div 100) us
          \<and> test_users = drop (length us * 70 div 100) us
          \<and> length us = card (uid ` set (rows ratings))
          \<and> (draws_in_range rng \<longrightarrow>
                mset (train_users @ test_users) = mset (unique (map uid (rows ratings)))
                \<and> set train_users \<inter> set test_users = {}))"
proof (intro conjI allI impI)
  show "train_test_users rng ga ratings = train_test_users rng gb ratings"
    by (simp add: train_test_users_eq)
  then show "calculate runner env rng ties store w ga min_number_of_ratings min_rank number_test_users =
        calculate runner env rng ties store w gb min_number_of_ratings min_rank number_test_users"
    if "folds runner = 0"
    using that by (simp add: calculate_def calculate_using_ratings_no_crossvalidation_def
        train_test_users_eq Let_def cong: sum.case_cong)
next
  fix train_users test_users us g'
  assume a: "train_test_users rng ga ratings = (train_users, test_users, us, g')"
  let ?xs = "unique (map uid (rows ratings))"
  from a show us: "us = fst (shuffle rng (seed rng 42) ?xs)"
    and tr: "train_users = take (length us * 70 div 100) us"
    and te: "test_users = drop (length us * 70 div 100) us"
    by (auto simp: train_test_users_eq Let_def)
  show "length us = card (uid ` set (rows ratings))"
    by (simp add: us length_shuffle length_unique)
  assume r: "draws_in_range rng"
  have m: "mset us = mset ?xs"
    unfolding us by (rule mset_shuffle [OF r])
  show "mset (train_users @ test_users) = mset ?xs"
    by (simp add: tr te m)
  have "distinct us"
    using m distinct_unique [of "map uid (rows ratings)"] by (metis mset_eq_imp_distinct_iff)
  then have "distinct (take (length us * 70 div 100) us @ drop (length us * 70 div 100) us)"
    by simp
  then show "set train_users \<inter> set test_users = {}"
    unfolding tr te distinct_append by blast
qed

theorem partition_deterministic_witness:
  "folds single_pass_runner = 0
   \<and> draws_in_range counter_rng
   \<and> train_test_users counter_rng 7 three_users = ([''u3'', ''u2''], [''u1''], [''u3'', ''u2'', ''u1''], 44)
   \<and> train_test_users counter_rng 1000 three_users = train_test_users counter_rng 7 three_users
   \<and> calculate single_pass_runner counting_env counter_rng no_ties [u1_i1, u2_i1, u3_i1] 0 1000 0 1 (- 1) =
       calculate single_pass_runner counting_env counter_rng no_ties [u1_i1, u2_i1, u3_i1] 0 7 0 1 (- 1)
   \<and> length [''u3'', ''u2'', ''u1''] = card (uid ` set (rows three_users))
   \<and> set [''u3'', ''u2''] \<inter> set [''u1''] = {}"
proof -
  have z: "folds single_pass_runner = 0"
    by (simp add: single_pass_runner_def)
  have r: "draws_in_range counter_rng"
    by (simp add: draws_in_range_def counter_rng_def)
  have tt: "train_test_users counter_rng 7 three_users =
      ([''u3'', ''u2''], [''u1''], [''u3'', ''u2'', ''u1''], 44)"
    by code_simp
  note t = partition_deterministic [where rng = counter_rng and ga = 7 and gb = 1000
      and ratings = three_users and runner = single_pass_runner and env = counting_env
      and ties = no_ties and store = "[u1_i1, u2_i1, u3_i1]" and w = 0
      and min_number_of_ratings = 0 and min_rank = 1 and number_test_users = "- 1"]
  from t have same: "train_test_users counter_rng 7 three_users =
      train_test_users counter_rng 1000 three_users"
    by (rule conjunct1)
  from t z have run: "calculate single_pass_runner counting_env counter_rng no_ties
      [u1_i1, u2_i1, u3_i1] 0 7 0 1 (- 1) =
      calculate single_pass_runner counting_env counter_rng no_ties [u1_i1, u2_i1, u3_i1] 0 1000 0 1 (- 1)"
    by blast
  note c = t [THEN conjunct2, THEN conjunct2, rule_format, OF tt]
  from c have n: "length [''u3'', ''u2'', ''u1''] = card (uid ` set (rows three_users))"
    by blast
  from c r have d: "set [''u3'', ''u2''] \<inter> set [''u1''] = {}"
    by blast
  from z r tt same run n d show ?thesis
    by simp
qed

text \<open>
  Claim C8. A single pass that returns has computed no error metric, \<open>mae = 0\<close>; its
  \<open>users\<close> is the number of distinct users of the cleaned table; its \<open>map\<close> and \<open>ar\<close> are
  what the ranking evaluator returned. It does return whenever some rating was fetched and
  the builder, the recommender and the evaluator return.
\<close>

theorem single_pass_result:
  "(folds runner = 0 \<and>
    calculate runner env rng ties store w g min_number_of_ratings min_rank number_test_users =
      Inr (res, w', g') \<longrightarrow>
      mae res = 0
      \<and> (\<exists>fetched cleaned.
            fetch_ratings store min_number_of_ratings number_test_users = Inr fetched
            \<and> clean_data (from_records fetched) min_number_of_ratings = Inr cleaned
            \<and> users res = Some (card (uid ` set (rows cleaned))))
      \<and> (\<exists>w0 train test.
            calculate_mean_average_precision env (K runner) w0 train test =
              Inr ((map_score res, ar res), w')))
   \<and> (folds runner = 0
      \<and> fetch_ratings store min_number_of_ratings number_test_users = Inr fetched
      \<and> fetched \<noteq> [] \<and> collaborators_return runner env \<longrightarrow>
      (\<exists>res w' g'.
         calculate runner env rng ties store w g min_number_of_ratings min_rank number_test_users =
           Inr (res, w', g')))"
proof (intro conjI impI)
  assume "folds runner = 0
      \<and> fetch_ratings store min_number_of_ratings number_test_users = Inr fetched
      \<and> fetched \<noteq> [] \<and> collaborators_return runner env"
  then show "\<exists>res w' g'.
         calculate runner env rng ties store w g min_number_of_ratings min_rank number_test_users =
           Inr (res, w', g')"
    by (elim conjE) (rule single_pass_returns)
next
  assume a: "folds runner = 0 \<and>
    calculate runner env rng ties store w g min_number_of_ratings min_rank number_test_users =
      Inr (res, w', g')"
  then have z: "folds runner = 0"
    and cal: "calculate runner env rng ties store w g min_number_of_ratings min_rank
      number_test_users = Inr (res, w', g')"
    by simp_all
  from cal obtain fetched where
    f: "fetch_ratings store min_number_of_ratings number_test_users = Inr fetched"
    by (cases "fetch_ratings store min_number_of_ratings number_test_users")
       (simp_all add: calculate_def)
  with z cal have nc: "calculate_using_ratings_no_crossvalidation runner env rng ties w g
      (from_records fetched) min_number_of_ratings min_rank = Inr (res, w', g')"
    by (simp add: calculate_def)
  then obtain cleaned where c: "clean_data (from_records fetched) min_number_of_ratings = Inr cleaned"
    by (cases "clean_data (from_records fetched) min_number_of_ratings")
       (simp_all add: calculate_using_ratings_no_crossvalidation_def)
  obtain tr te us g2 where tt: "train_test_users rng g cleaned = (tr, te, us, g2)"
    by (cases "train_test_users rng g cleaned")
  from nc c tt obtain test train where sp: "split_data ties min_rank cleaned te tr = Inr (test, train)"
    by (cases "split_data ties min_rank cleaned te tr")
       (auto simp: calculate_using_ratings_no_crossvalidation_def)
  from nc c tt sp obtain w1 where b: "run_builder runner env w train = Inr w1"
    by (cases "run_builder runner env w train")
       (auto simp: calculate_using_ratings_no_crossvalidation_def)
  from nc c tt sp b obtain p q w2 where
    e: "calculate_mean_average_precision env (K runner) w1 train test = Inr ((p, q), w2)"
    by (cases "calculate_mean_average_precision env (K runner) w1 train test")
       (auto simp: calculate_using_ratings_no_crossvalidation_def)
  from nc c tt sp b e have res:
    "res = \<lparr>map_score = p, ar = q, mae = 0, users = Some (length us)\<rparr>" "w' = w2"
    by (auto simp: calculate_using_ratings_no_crossvalidation_def)
  show "mae res = 0" by (simp add: res)
  have "us = fst (shuffle rng (seed rng 42) (unique (map uid (rows cleaned))))"
    using tt by (simp add: train_test_users_eq Let_def)
  then have "length us = card (uid ` set (rows cleaned))"
    by (simp add: length_shuffle length_unique)
  with f c show "\<exists>fetched cleaned.
            fetch_ratings store min_number_of_ratings number_test_users = Inr fetched
            \<and> clean_data (from_records fetched) min_number_of_ratings = Inr cleaned
            \<and> users res = Some (card (uid ` set (rows cleaned)))"
    by (auto simp: res)
  from e show "\<exists>w0 train test.
            calculate_mean_average_precision env (K runner) w0 train test =
              Inr ((map_score res, ar res), w')"
    by (auto simp: res)
qed

theorem single_pass_result_witness:
  "folds single_pass_runner = 0
   \<and> calculate single_pass_runner counting_env counter_rng no_ties [u1_i1, u2_i1, u3_i1] 0 7 0 1 (- 1) =
       Inr (\<lparr>map_score = 1, ar = 1, mae = 0, users = Some 3\<rparr>, 0, 44)
   \<and> fetch_ratings [u1_i1, u2_i1, u3_i1] 0 (- 1) = Inr [u1_i1, u2_i1, u3_i1]
   \<and> [u1_i1, u2_i1, u3_i1] \<noteq> []
   \<and> collaborators_return single_pass_runner counting_env
   \<and> clean_data (from_records [u1_i1, u2_i1, u3_i1]) 0 = Inr three_users
   \<and> card (uid ` set (rows three_users)) = 3
   \<and> mae \<lparr>map_score = 1, ar = 1, mae = 0, users = Some 3\<rparr> = 0"
proof -
  have z: "folds single_pass_runner = 0"
    by (simp add: single_pass_runner_def)
  have cal: "calculate single_pass_runner counting_env counter_rng no_ties [u1_i1, u2_i1, u3_i1]
      0 7 0 1 (- 1) = Inr (\<lparr>map_score = 1, ar = 1, mae = 0, users = Some 3\<rparr>, 0, 44)"
    by code_simp
  have f: "fetch_ratings [u1_i1, u2_i1, u3_i1] 0 (- 1) = Inr [u1_i1, u2_i1, u3_i1]"
    by (simp add: fetch_ratings_def)
  have ne: "[u1_i1, u2_i1, u3_i1] \<noteq> []"
    by simp
  have cr: "collaborators_return single_pass_runner counting_env"
    by (simp add: collaborators_return_def single_pass_runner_def counting_env_def)
  have c: "clean_data (from_records [u1_i1, u2_i1, u3_i1]) 0 = Inr three_users"
    by code_simp
  have n: "card (uid ` set (rows three_users)) = 3"
    by code_simp
  note t = single_pass_result [where runner = single_pass_runner and env = counting_env
      and rng = counter_rng and ties = no_ties and store = "[u1_i1, u2_i1, u3_i1]" and w = 0
      and g = 7 and min_number_of_ratings = 0 and min_rank = 1 and number_test_users = "- 1"
      and res = "\<lparr>map_score = 1, ar = 1, mae = 0, users = Some 3\<rparr>" and w' = 0 and g' = 44
      and fetched = "[u1_i1, u2_i1, u3_i1]"]
  from t z cal have "mae \<lparr>map_score = 1, ar = 1, mae = 0, users = Some 3\<rparr> = 0"
    by blast
  with z cal f ne cr c n show ?thesis
    by (intro conjI)
qed

lemma no_ratings_KeyError:
  "fetch_ratings store m n = Inr [] \<Longrightarrow>
   calculate runner env rng ties store w g m min_rank n = Inl KeyError"
  by (simp add: calculate_def Let_def calculate_using_ratings_no_crossvalidation_def
      calculate_using_ratings_def clean_data_no_records)

text \<open>
  Claim C7, amended. When ratings were fetched and cleaning removes every user, the single
  pass raises nothing of its own: the builder is given an empty training table, the ranking
  evaluator two empty tables, and when they return, their \<open>map\<close> and \<open>ar\<close> come back with
  \<open>mae = 0\<close> and \<open>users = 0\<close>.
\<close>

theorem empty_cohort:
  "folds runner = 0
   \<and> fetch_ratings store min_number_of_ratings number_test_users = Inr fetched
   \<and> clean_data (from_records fetched) min_number_of_ratings = Inr cleaned
   \<and> rows cleaned = []
   \<and> run_builder runner env w cleaned = Inr w1
   \<and> calculate_mean_average_precision env (K runner) w1 cleaned cleaned = Inr ((p, a), w2)
   \<longrightarrow>
   calculate runner env rng ties store w g min_number_of_ratings min_rank number_test_users =
     Inr (\<lparr>map_score = p, ar = a, mae = 0, users = Some 0\<rparr>, w2, seed rng 42)"
proof
  assume a: "folds runner = 0
      \<and> fetch_ratings store min_number_of_ratings number_test_users = Inr fetched
      \<and> clean_data (from_records fetched) min_number_of_ratings = Inr cleaned
      \<and> rows cleaned = []
      \<and> run_builder runner env w cleaned = Inr w1
      \<and> calculate_mean_average_precision env (K runner) w1 cleaned cleaned = Inr ((p, a), w2)"
  then have z: "folds runner = 0"
    and f: "fetch_ratings store min_number_of_ratings number_test_users = Inr fetched"
    and c: "clean_data (from_records fetched) min_number_of_ratings = Inr cleaned"
    and e: "rows cleaned = []"
    and b: "run_builder runner env w cleaned = Inr w1"
    and v: "calculate_mean_average_precision env (K runner) w1 cleaned cleaned =
      Inr ((p, a), w2)"
    by simp_all
  have "fetched \<noteq> []"
    using c clean_data_no_records [of min_number_of_ratings] by auto
  from clean_data_from_records [OF this, of min_number_of_ratings] c e
  have cleaned: "cleaned = \<lparr>columns = rating_columns, rows = []\<rparr>"
    by simp
  have sp: "split_data ties min_rank cleaned [] [] = Inr (cleaned, cleaned)"
    by (simp add: cleaned split_data_def rating_columns_def sort_values_desc_def
        groupby_head_def)
  show "calculate runner env rng ties store w g min_number_of_ratings min_rank number_test_users =
      Inr (\<lparr>map_score = p, ar = a, mae = 0, users = Some 0\<rparr>, w2, seed rng 42)"
    by (simp add: calculate_def z f calculate_using_ratings_no_crossvalidation_def c
        train_test_users_no_rows [OF e] sp b v)
qed

theorem empty_cohort_witness:
  "folds single_pass_runner = 0
   \<and> fetch_ratings [u1_i1, u2_i1, u3_i1] 5 (- 1) = Inr [u1_i1, u2_i1, u3_i1]
   \<and> clean_data (from_records [u1_i1, u2_i1, u3_i1]) 5 = Inr no_users_left
   \<and> rows no_users_left = []
   \<and> run_builder single_pass_runner counting_env 0 no_users_left = Inr 0
   \<and> calculate_mean_average_precision counting_env (K single_pass_runner) 0
        no_users_left no_users_left = Inr ((1, 1), 0)
   \<and> calculate single_pass_runner counting_env counter_rng no_ties [u1_i1, u2_i1, u3_i1] 0 7 5 10 (- 1) =
        Inr (\<lparr>map_score = 1, ar = 1, mae = 0, users = Some 0\<rparr>, 0, seed counter_rng 42)"
proof -
  have z: "folds single_pass_runner = 0"
    by (simp add: single_pass_runner_def)
  have f: "fetch_ratings [u1_i1, u2_i1, u3_i1] 5 (- 1) = Inr [u1_i1, u2_i1, u3_i1]"
    by (simp add: fetch_ratings_def)
  have c: "clean_data (from_records [u1_i1, u2_i1, u3_i1]) 5 = Inr no_users_left"
    by code_simp
  have e: "rows no_users_left = []"
    by (simp add: no_users_left_def)
  have b: "run_builder single_pass_runner counting_env 0 no_users_left = Inr 0"
    by (simp add: run_builder_def single_pass_runner_def)
  have v: "calculate_mean_average_precision counting_env (K single_pass_runner) 0
      no_users_left no_users_left = Inr ((1, 1), 0)"
    by (simp add: counting_env_def)
  note t = empty_cohort [where runner = single_pass_runner and store = "[u1_i1, u2_i1, u3_i1]"
      and min_number_of_ratings = 5 and number_test_users = "- 1"
      and fetched = "[u1_i1, u2_i1, u3_i1]" and cleaned = no_users_left and env = counting_env
      and w = 0 and ?w1.0 = 0 and p = 1 and a = 1 and ?w2.0 = 0 and rng = counter_rng
      and ties = no_ties and g = 7 and min_rank = 10]
  from t z f c e b v have "calculate single_pass_runner counting_env counter_rng no_ties
      [u1_i1, u2_i1, u3_i1] 0 7 5 10 (- 1) =
      Inr (\<lparr>map_score = 1, ar = 1, mae = 0, users = Some 0\<rparr>, 0, seed counter_rng 42)"
    by blast
  with z f c e b v show ?thesis
    by (intro conjI)
qed

text \<open>
  Claim C7 as stated fails: on an empty rating store the table has no columns, and the
  single pass raises \<open>KeyError\<close> in the cleaner.
\<close>

theorem empty_store_counterexample:
  "calculate single_pass_runner counting_env counter_rng no_ties [] 0 7 5 10 (- 1) = Inl KeyError"
  by code_simp

text \<open>
  Claim C9, amended. The runner checks none of its parameters. A \<open>min_rank\<close> that is not
  positive is accepted: the single pass returns a result whenever ratings were fetched and
  its collaborators return, and with \<open>min_rank = 0\<close> the splitter returns an empty test
  table and puts every row of either cohort into the training table. With a negative number
  of folds and some rating fetched the run fails with the \<open>ValueError\<close> of \<open>KFold\<close>, after
  cleaning and before any fold is split, fitted or evaluated.
\<close>

theorem no_parameter_validation:
  "(has_columns [''user_id'', ''rating_timestamp''] ratings \<longrightarrow>
      split_data ties 0 ratings test_users train_users =
        Inr (ratings\<lparr>rows := []\<rparr>,
             ratings\<lparr>rows := filter (\<lambda>r. uid r \<in> set train_users) (rows ratings) @
                sort_values_desc ties
                  (filter (\<lambda>r. uid r \<in> set test_users) (rows ratings))\<rparr>))
   \<and> (folds runner = 0 \<and> min_rank \<le> 0
      \<and> fetch_ratings store min_number_of_ratings number_test_users = Inr fetched
      \<and> fetched \<noteq> [] \<and> collaborators_return runner env \<longrightarrow>
      (\<exists>res w' g'.
         calculate runner env rng ties store w g min_number_of_ratings min_rank
           number_test_users = Inr (res, w', g')))
   \<and> (folds runner < 0
      \<and> fetch_ratings store min_number_of_ratings number_test_users = Inr fetched
      \<and> fetched \<noteq> [] \<longrightarrow>
      calculate runner env rng ties store w g min_number_of_ratings min_rank number_test_users =
        Inl ValueError)"
proof (intro conjI impI)
  assume "has_columns [''user_id'', ''rating_timestamp''] ratings"
  then show "split_data ties 0 ratings test_users train_users =
        Inr (ratings\<lparr>rows := []\<rparr>,
             ratings\<lparr>rows := filter (\<lambda>r. uid r \<in> set train_users) (rows ratings) @
                sort_values_desc ties
                  (filter (\<lambda>r. uid r \<in> set test_users) (rows ratings))\<rparr>)"
    by (rule split_data_zero)
next
  assume "folds runner = 0 \<and> min_rank \<le> 0
      \<and> fetch_ratings store min_number_of_ratings number_test_users = Inr fetched
      \<and> fetched \<noteq> [] \<and> collaborators_return runner env"
  then show "\<exists>res w' g'.
         calculate runner env rng ties store w g min_number_of_ratings min_rank
           number_test_users = Inr (res, w', g')"
    by (elim conjE) (rule single_pass_returns)
next
  assume "folds runner < 0
      \<and> fetch_ratings store min_number_of_ratings number_test_users = Inr fetched
      \<and> fetched \<noteq> []"
  then show "calculate runner env rng ties store w g min_number_of_ratings min_rank
      number_test_users = Inl ValueError"
    by (elim conjE) (rule negative_folds_ValueError)
qed

theorem no_parameter_validation_witness:
  "has_columns [''user_id'', ''rating_timestamp''] two_users
   \<and> split_data no_ties 0 two_users [''u1''] [''u2''] = Inr (no_users_left, all_in_train)
   \<and> folds single_pass_runner = 0
   \<and> (0::rat) \<le> 0
   \<and> collaborators_return single_pass_runner counting_env
   \<and> calculate single_pass_runner counting_env counter_rng no_ties [u1_i1, u2_i1, u3_i1] 0 7 0 0
        (- 1) = Inr (\<lparr>map_score = 1, ar = 1, mae = 0, users = Some 3\<rparr>, 0, 44)
   \<and> folds negative_fold_runner < 0
   \<and> fetch_ratings [u1_i1, u2_i1, u3_i1] 0 (- 1) = Inr [u1_i1, u2_i1, u3_i1]
   \<and> [u1_i1, u2_i1, u3_i1] \<noteq> []
   \<and> calculate negative_fold_runner counting_env counter_rng no_ties [u1_i1, u2_i1, u3_i1] 0 7 0 0
        (- 1) = Inl ValueError"
proof -
  have cols: "has_columns [''user_id'', ''rating_timestamp''] two_users"
    by code_simp
  have z: "folds single_pass_runner = 0"
    by (simp add: single_pass_runner_def)
  have m: "(0::rat) \<le> 0"
    by simp
  have cr: "collaborators_return single_pass_runner counting_env"
    by (simp add: collaborators_return_def single_pass_runner_def counting_env_def)
  have neg: "folds negative_fold_runner < 0"
    by (simp add: negative_fold_runner_def)
  have f: "fetch_ratings [u1_i1, u2_i1, u3_i1] 0 (- 1) = Inr [u1_i1, u2_i1, u3_i1]"
    by (simp add: fetch_ratings_def)
  have ne: "[u1_i1, u2_i1, u3_i1] \<noteq> []"
    by simp
  have test: "two_users\<lparr>rows := []\<rparr> = no_users_left"
    by code_simp
  have train: "two_users\<lparr>rows := filter (\<lambda>r. uid r \<in> set [''u2'']) (rows two_users) @
      sort_values_desc no_ties (filter (\<lambda>r. uid r \<in> set [''u1'']) (rows two_users))\<rparr> =
      all_in_train"
    by code_simp
  note t = no_parameter_validation [where ratings = two_users and ties = no_ties
      and test_users = "[''u1'']" and train_users = "[''u2'']" and runner = single_pass_runner
      and min_rank = 0 and store = "[u1_i1, u2_i1, u3_i1]" and min_number_of_ratings = 0
      and number_test_users = "- 1" and fetched = "[u1_i1, u2_i1, u3_i1]" and env = counting_env
      and rng = counter_rng and w = 0 and g = 7]
  note t' = no_parameter_validation [where ratings = two_users and ties = no_ties
      and test_users = "[''u1'']" and train_users = "[''u2'']" and runner = negative_fold_runner
      and min_rank = 0 and store = "[u1_i1, u2_i1, u3_i1]" and min_number_of_ratings = 0
      and number_test_users = "- 1" and fetched = "[u1_i1, u2_i1, u3_i1]" and env = counting_env
      and rng = counter_rng and w = 0 and g = 7]
  from t cols have sp: "split_data no_ties 0 two_users [''u1''] [''u2''] =
      Inr (no_users_left, all_in_train)"
    unfolding test train by blast
  from t z m f ne cr obtain res w' g' where "calculate single_pass_runner counting_env
      counter_rng no_ties [u1_i1, u2_i1, u3_i1] 0 7 0 0 (- 1) = Inr (res, w', g')"
    by blast
  moreover have "calculate single_pass_runner counting_env counter_rng no_ties
      [u1_i1, u2_i1, u3_i1] 0 7 0 0 (- 1) =
      Inr (\<lparr>map_score = 1, ar = 1, mae = 0, users = Some 3\<rparr>, 0, 44)"
    by code_simp
  ultimately have run: "calculate single_pass_runner counting_env counter_rng no_ties
      [u1_i1, u2_i1, u3_i1] 0 7 0 0 (- 1) =
      Inr (\<lparr>map_score = 1, ar = 1, mae = 0, users = Some 3\<rparr>, 0, 44)"
    by simp
  from t' neg f ne have v: "calculate negative_fold_runner counting_env counter_rng no_ties
      [u1_i1, u2_i1, u3_i1] 0 7 0 0 (- 1) = Inl ValueError"
    by blast
  from cols sp z m cr run neg f ne v show ?thesis
    by (intro conjI)
qed

text \<open>
  Claim C9 as stated fails: the single pass with \<open>min_rank = 0\<close> is not rejected, it
  returns a result.
\<close>

theorem zero_min_rank_counterexample:
  "calculate single_pass_runner counting_env counter_rng no_ties [u1_i1, u2_i1, u3_i1] 0 7 0 0 (- 1) =
     Inr (\<lparr>map_score = 1, ar = 1, mae = 0, users = Some 3\<rparr>, 0, 44)"
  by code_simp

section \<open>Properties of the cross-validation\<close>

lemma length_test_folds: "length (test_folds current sizes) = length sizes"
  by (induction sizes arbitrary: current) auto

lemma length_kfold_split: "kfold_split k n = Inr splits \<Longrightarrow> length splits = k"
  by (auto simp: kfold_split_def length_test_folds fold_sizes_def split: if_splits)

lemma KFold_Inr: "KFold f = Inr kf \<Longrightarrow> 1 < f \<and> kf = nat f"
  by (auto simp: KFold_def split: if_splits)

lemma length_fold_values:
  "fold_values runner env ties min_rank ratings us splits w = Inr (vs, w') \<Longrightarrow>
   length vs = length splits"
  by (induction splits arbitrary: w vs) (auto split: sum.splits prod.splits)

lemma validation_loop_fold_values:
  assumes "folds runner \<noteq> 0"
  shows "validation_loop runner env ties min_rank ratings us splits w (maps, ars, maes) res =
     (case fold_values runner env ties min_rank ratings us splits w of
        Inl e \<Rightarrow> Inl e
      | Inr (vs, w') \<Rightarrow>
          Inr (if vs = [] then res
               else Some \<lparr>map_score =
                            context_round (foldl dec_add maps (map fst vs) / of_int (folds runner)),
                          ar = context_round
                                 (foldl dec_add ars (map (fst \<circ> snd) vs) / of_int (folds runner)),
                          mae = context_round
                                  (foldl dec_add maes (map (snd \<circ> snd) vs) / of_int (folds runner)),
                          users = None\<rparr>, w'))"
proof (induction splits arbitrary: w maps ars maes res)
  case Nil
  then show ?case by simp
next
  case (Cons part rest)
  show ?case
  proof (cases "evaluate_fold runner env ties min_rank ratings us part w")
    case (Inl e)
    then show ?thesis by simp
  next
    case (Inr r)
    then obtain m a err w1 where
      ev: "evaluate_fold runner env ties min_rank ratings us part w = Inr ((m, a, err), w1)"
      by (cases r) auto
    show ?thesis
      using assms
      by (simp add: ev dec_div_def Let_def Cons.IH split: sum.splits prod.splits)
  qed
qed

lemma exact_zero: "exact 0"
  by (simp add: exact_def context_round_def)

lemma foldl_dec_add_exact:
  "(\<And>k. k \<le> length xs \<Longrightarrow> exact (a + sum_list (take k xs))) \<Longrightarrow>
   foldl dec_add a xs = a + sum_list xs"
proof (induction xs arbitrary: a)
  case Nil
  then show ?case by simp
next
  case (Cons x xs)
  from Cons.prems [of 1] have one: "dec_add a x = a + x"
    by (simp add: dec_add_def exact_def)
  have "foldl dec_add (a + x) xs = (a + x) + sum_list xs"
  proof (rule Cons.IH)
    fix k assume "k \<le> length xs"
    with Cons.prems [of "Suc k"] show "exact (a + x + sum_list (take k xs))"
      by (simp add: ac_simps)
  qed
  then show ?case by (simp add: one ac_simps)
qed

lemma fold_mean_exact:
  assumes "sums_exact xs n"
  shows "fold_mean xs n = sum_list xs / of_int n"
proof -
  from assms have parts: "\<And>k. k \<le> length xs \<Longrightarrow> exact (sum_list (take k xs))"
    and mean: "exact (sum_list xs / of_int n)"
    by (auto simp: sums_exact_def list_all_iff)
  have "running_sum xs = sum_list xs"
    using foldl_dec_add_exact [of xs 0] parts by (simp add: running_sum_def)
  with mean show ?thesis
    by (simp add: fold_mean_def exact_def)
qed

text \<open>
  Claim C4, amended. When the number of folds is accepted (at least 2, at most the number
  of users left) and every fold is evaluated, the run returns the record of the three
  fold means: the values of the folds added up in their order from 0 and divided once by
  the number of folds, each addition and the division rounded to the 28 significant digits
  of the decimal context. Whenever no partial sum and not the quotient needs rounding, this
  is the arithmetic mean.
\<close>

theorem fold_averages:
  "(fetch_ratings store min_number_of_ratings number_test_users = Inr fetched
    \<and> clean_data (from_records fetched) min_number_of_ratings = Inr ratings
    \<and> KFold (folds runner) = Inr kf
    \<and> kfold_split kf (length (unique (map uid (rows ratings)))) = Inr splits
    \<and> fold_values runner env ties min_rank ratings (unique (map uid (rows ratings))) splits w =
        Inr (vs, w')
    \<longrightarrow>
      length vs = nat (folds runner) \<and> 1 < folds runner
      \<and> calculate runner env rng ties store w g min_number_of_ratings min_rank number_test_users =
          Inr (\<lparr>map_score = fold_mean (map fst vs) (folds runner),
                ar = fold_mean (map (fst \<circ> snd) vs) (folds runner),
                mae = fold_mean (map (snd \<circ> snd) vs) (folds runner),
                users = None\<rparr>, w', g))
   \<and> (sums_exact xs n \<longrightarrow> fold_mean xs n = sum_list xs / of_int n)"
proof (intro conjI impI)
  assume "sums_exact xs n"
  then show "fold_mean xs n = sum_list xs / of_int n"
    by (rule fold_mean_exact)
next
  assume a: "fetch_ratings store min_number_of_ratings number_test_users = Inr fetched
    \<and> clean_data (from_records fetched) min_number_of_ratings = Inr ratings
    \<and> KFold (folds runner) = Inr kf
    \<and> kfold_split kf (length (unique (map uid (rows ratings)))) = Inr splits
    \<and> fold_values runner env ties min_rank ratings (unique (map uid (rows ratings))) splits w =
        Inr (vs, w')"
  then have f: "fetch_ratings store min_number_of_ratings number_test_users = Inr fetched"
    and c: "clean_data (from_records fetched) min_number_of_ratings = Inr ratings"
    and k: "KFold (folds runner) = Inr kf"
    and s: "kfold_split kf (length (unique (map uid (rows ratings)))) = Inr splits"
    and v: "fold_values runner env ties min_rank ratings (unique (map uid (rows ratings))) splits w =
        Inr (vs, w')"
    by simp_all
  from KFold_Inr [OF k] show big: "1 < folds runner" by simp
  from KFold_Inr [OF k] length_kfold_split [OF s] length_fold_values [OF v]
  show len: "length vs = nat (folds runner)" by simp
  from big len have ne: "vs \<noteq> []" "folds runner \<noteq> 0" by auto
  show "calculate runner env rng ties store w g min_number_of_ratings min_rank number_test_users =
          Inr (\<lparr>map_score = fold_mean (map fst vs) (folds runner),
                ar = fold_mean (map (fst \<circ> snd) vs) (folds runner),
                mae = fold_mean (map (snd \<circ> snd) vs) (folds runner),
                users = None\<rparr>, w', g)"
    by (simp add: calculate_def f ne calculate_using_ratings_def c k s
        validation_loop_fold_values [OF ne(2)] v fold_mean_def running_sum_def)
qed

theorem fold_averages_witness:
  "fetch_ratings [u1_i1, u2_i1, u3_i1] 0 (- 1) = Inr [u1_i1, u2_i1, u3_i1]
   \<and> clean_data (from_records [u1_i1, u2_i1, u3_i1]) 0 = Inr three_users
   \<and> KFold (folds three_fold_runner) = Inr 3
   \<and> kfold_split 3 (length (unique (map uid (rows three_users)))) = Inr three_folds
   \<and> fold_values three_fold_runner counting_env no_ties 1 three_users
        (unique (map uid (rows three_users))) three_folds 0 =
        Inr (counting_values, 3)
   \<and> sums_exact [1, 2, 3] 3
   \<and> calculate three_fold_runner counting_env counter_rng no_ties [u1_i1, u2_i1, u3_i1] 0 7 0 1 (- 1) =
        Inr (\<lparr>map_score = 2, ar = 2, mae = 2, users = None\<rparr>, 3, 7)
   \<and> map fst counting_values = [1, 2, 3]
   \<and> fold_mean [1, 2, 3] 3 = (1 + 2 + 3) / 3"
proof -
  have f: "fetch_ratings [u1_i1, u2_i1, u3_i1] 0 (- 1) = Inr [u1_i1, u2_i1, u3_i1]"
    by (simp add: fetch_ratings_def)
  have c: "clean_data (from_records [u1_i1, u2_i1, u3_i1]) 0 = Inr three_users"
    by code_simp
  have k: "KFold (folds three_fold_runner) = Inr 3"
    by code_simp
  have s: "kfold_split 3 (length (unique (map uid (rows three_users)))) = Inr three_folds"
    by code_simp
  have v: "fold_values three_fold_runner counting_env no_ties 1 three_users
      (unique (map uid (rows three_users))) three_folds 0 =
      Inr (counting_values, 3)"
    by code_simp
  have x: "sums_exact [1, 2, 3] 3"
    by code_simp
  have m: "fold_mean (map fst counting_values) (folds three_fold_runner) = 2"
    "fold_mean (map (fst \<circ> snd) counting_values) (folds three_fold_runner) = 2"
    "fold_mean (map (snd \<circ> snd) counting_values) (folds three_fold_runner) = 2"
    by code_simp+
  note t = fold_averages [where store = "[u1_i1, u2_i1, u3_i1]" and min_number_of_ratings = 0
      and number_test_users = "- 1" and fetched = "[u1_i1, u2_i1, u3_i1]"
      and ratings = three_users and runner = three_fold_runner and kf = 3
      and splits = three_folds and env = counting_env and ties = no_ties and min_rank = 1
      and w = 0 and vs = counting_values and w' = 3 and rng = counter_rng and g = 7
      and xs = "[1, 2, 3]" and n = 3]
  from t f c k s v have "calculate three_fold_runner counting_env counter_rng no_ties
      [u1_i1, u2_i1, u3_i1] 0 7 0 1 (- 1) =
      Inr (\<lparr>map_score = fold_mean (map fst counting_values)
                          (folds three_fold_runner),
            ar = fold_mean (map (fst \<circ> snd) counting_values)
                   (folds three_fold_runner),
            mae = fold_mean (map (snd \<circ> snd) counting_values)
                    (folds three_fold_runner),
            users = None\<rparr>, 3, 7)"
    by blast
  then have r: "calculate three_fold_runner counting_env counter_rng no_ties
      [u1_i1, u2_i1, u3_i1] 0 7 0 1 (- 1) =
      Inr (\<lparr>map_score = 2, ar = 2, mae = 2, users = None\<rparr>, 3, 7)"
    by (simp only: m)
  from t x have "fold_mean [1, 2, 3] 3 = sum_list [1, 2, 3] / of_int 3"
    by blast
  then have e: "fold_mean [1, 2, 3] 3 = (1 + 2 + 3) / 3"
    by simp
  have l: "map fst counting_values = [1, 2, 3]"
    by (simp add: counting_values_def)
  from f c k s v x r l e show ?thesis
    by (intro conjI)
qed

text \<open>
  Claim C4 as stated fails: for three folds with the values 1, 0 and 0 the returned
  \<open>map\<close> is 0.3333333333333333333333333333, which is not the arithmetic mean 1/3.
\<close>

theorem fold_average_rounded_counterexample:
  "fold_values three_fold_runner first_fold_env no_ties 1 three_users
     (unique (map uid (rows three_users))) three_folds 0 =
     Inr (first_fold_values, 3)
   \<and> calculate three_fold_runner first_fold_env counter_rng no_ties [u1_i1, u2_i1, u3_i1] 0 7 0 1 (- 1) =
       Inr (\<lparr>map_score = one_third_rounded, ar = 0, mae = 0, users = None\<rparr>, 3, 7)
   \<and> map fst first_fold_values = [1, 0, 0]
   \<and> one_third_rounded \<noteq> (1 + 0 + 0) / 3"
  by code_simp

end
